theory Spec2Isabelle
  imports Complex_Main "HOL-Library.Sublist"
begin

section \<open>JavaScript values used by the pipeline\<close>

text \<open>
  Strings are HOL strings, one \<open>char\<close> per ASCII character. A JavaScript \<open>number\<close> read from
  the schema-validated analysis document (bounding box coordinates, the background
  complexity score) is a rational: the zod schema admits only finite numbers, and the
  literals \<open>0.33\<close> and \<open>0.66\<close> are read as the decimals they denote. Array indices and
  lengths are natural numbers. A string in a boolean position is true when it is not
  empty.
\<close>

text \<open>\<open>s.split(c)\<close> for a one-character separator: never returns the empty array.\<close>

fun split_on :: "char \<Rightarrow> string \<Rightarrow> string list" where
  "split_on c [] = [[]]"
| "split_on c (a # as) =
     (if a = c then [] # split_on c as
      else (case split_on c as of
              [] \<Rightarrow> [[a]]
            | w # ws \<Rightarrow> (a # w) # ws))"

text \<open>\<open>parts.join(sep)\<close>.\<close>

fun join :: "string \<Rightarrow> string list \<Rightarrow> string" where
  "join sep [] = []"
| "join sep [p] = p"
| "join sep (p # q # ps) = p @ sep @ join sep (q # ps)"

text \<open>\<open>s.toLowerCase()\<close> on the letters \<open>A\<close> to \<open>Z\<close>; every other code unit is kept.\<close>

definition toLowerCase_char :: "char \<Rightarrow> char" where
  "toLowerCase_char c =
     (case map_of (zip ''ABCDEFGHIJKLMNOPQRSTUVWXYZ'' ''abcdefghijklmnopqrstuvwxyz'') c of
        Some l \<Rightarrow> l
      | None \<Rightarrow> c)"

definition toLowerCase :: "string \<Rightarrow> string" where
  "toLowerCase s = map toLowerCase_char s"

text \<open>\<open>s.includes(p)\<close>: \<open>p\<close> occurs in \<open>s\<close> as a contiguous run.\<close>

fun includes_str :: "string \<Rightarrow> string \<Rightarrow> bool" where
  "includes_str [] p = (p = [])"
| "includes_str (a # as) p = (prefix p (a # as) \<or> includes_str as p)"

section \<open>Data model (lib/pipeline/types.ts)\<close>

text \<open>
  A field carries a prefix naming its interface where the source uses the same field
  name in several interfaces or as a parameter name (\<open>description\<close>, \<open>complexity\<close>,
  \<open>model\<close>, \<open>error\<close>, ...); the bounding box fields \<open>x\<close>, \<open>y\<close>, \<open>width\<close>, \<open>height\<close>
  are \<open>bbox_x\<close>, \<open>bbox_y\<close>, \<open>bbox_width\<close>, \<open>bbox_height\<close>.
\<close>

datatype ComplexityLevel = Toddler | Child | Tween | Adult

datatype PromptVariant = DirectTransform | PreservationHeavy | SimplificationHeavy

datatype PhotoType = Portrait | Group | Pet | Landscape | Landmark | Other

text \<open>The string each member of the \<open>PhotoType\<close> union is at run time.\<close>

fun photoTypeString :: "PhotoType \<Rightarrow> string" where
  "photoTypeString Portrait = ''portrait''"
| "photoTypeString Group = ''group''"
| "photoTypeString Pet = ''pet''"
| "photoTypeString Landscape = ''landscape''"
| "photoTypeString Landmark = ''landmark''"
| "photoTypeString Other = ''other''"

datatype ElementCategory = SubjectCategory | ObjectCategory | BackgroundCategory | AccessoryCategory

datatype BackgroundStrategy = Remove | Simplify | PreserveStructure | PreserveDetail

record DetectedElement =
  label :: string
  importance :: nat
  category :: ElementCategory
  element_description :: string

record FaceRegion =
  face_description :: string
  position :: string
  distinguishingFeatures :: "string list"

record AnalysisResult =
  elements :: "DetectedElement list"
  faceRegions :: "FaceRegion list"
  sceneDescription :: string
  spatialLayout :: string
  backgroundStrategy :: BackgroundStrategy

record BoundingBox =
  bbox_x :: rat
  bbox_y :: rat
  bbox_width :: rat
  bbox_height :: rat

record Subject =
  subject_description :: string
  boundingBox :: BoundingBox
  distinctiveFeatures :: "string list"

record BackgroundInfo =
  background_description :: string
  background_complexity :: rat
  keyElements :: "string list"

record SimplificationTarget =
  target_element :: string
  target_reason :: string
  applicableComplexity :: "ComplexityLevel list"

record ImageAnalysis =
  photoType :: PhotoType
  subjects :: "Subject list"
  background :: BackgroundInfo
  preservationPriorities :: "string list"
  simplificationTargets :: "SimplificationTarget list"

section \<open>The mapper from ImageAnalysis to AnalysisResult (lib/pipeline/analyzer.ts)\<close>

definition bboxToPosition :: "BoundingBox \<Rightarrow> string" where
  "bboxToPosition bbox =
     (let horizontal = (if bbox_x bbox < 33 / 100 then ''left''
                        else if bbox_x bbox > 66 / 100 then ''right'' else '''');
          vertical = (if bbox_y bbox < 33 / 100 then ''top''
                      else if bbox_y bbox > 66 / 100 then ''bottom'' else '''')
      in if horizontal \<noteq> [] \<and> vertical \<noteq> [] then vertical @ ''-'' @ horizontal
         else if horizontal \<noteq> [] then horizontal
         else if vertical \<noteq> [] then vertical
         else ''center'')"

definition deriveBackgroundStrategy :: "rat \<Rightarrow> string \<Rightarrow> BackgroundStrategy" where
  "deriveBackgroundStrategy cplx pt =
     (if pt = ''landmark'' then PreserveDetail
      else if pt = ''landscape'' then PreserveStructure
      else if cplx \<le> 2 then Remove
      else if cplx \<le> 5 then Simplify
      else if cplx \<le> 8 then PreserveStructure
      else PreserveDetail)"

text \<open>The callback of \<open>analysis.subjects.map((subject, i) => ...)\<close>.\<close>

definition subjectElement :: "nat \<Rightarrow> Subject \<Rightarrow> DetectedElement" where
  "subjectElement i subject =
     \<lparr> label = join '' '' (take 3 (split_on CHR '' '' (subject_description subject))),
       importance = i + 1,
       category = SubjectCategory,
       element_description = subject_description subject \<rparr>"

text \<open>The callback of \<open>analysis.background.keyElements.map((element, i) => ...)\<close>.\<close>

definition backgroundElement :: "nat \<Rightarrow> nat \<Rightarrow> string \<Rightarrow> DetectedElement" where
  "backgroundElement nsubjects i el =
     \<lparr> label = el,
       importance = nsubjects + i + 1,
       category = BackgroundCategory,
       element_description = el \<rparr>"

text \<open>\<open>xs.map((x, i) => f(i, x))\<close>: the callback receives the index.\<close>

fun map_index_from :: "nat \<Rightarrow> (nat \<Rightarrow> 'a \<Rightarrow> 'b) \<Rightarrow> 'a list \<Rightarrow> 'b list" where
  "map_index_from i f [] = []"
| "map_index_from i f (a # as) = f i a # map_index_from (Suc i) f as"

definition map_index :: "(nat \<Rightarrow> 'a \<Rightarrow> 'b) \<Rightarrow> 'a list \<Rightarrow> 'b list" where
  "map_index f as = map_index_from 0 f as"

text \<open>The predicate of \<open>analysis.subjects.filter((s) => ...)\<close>.\<close>

definition isFaceSubject :: "PhotoType \<Rightarrow> Subject \<Rightarrow> bool" where
  "isFaceSubject pt s =
     (length (distinctiveFeatures s) > 0 \<and>
      (photoTypeString pt = ''portrait'' \<or>
       photoTypeString pt = ''group'' \<or>
       includes_str (toLowerCase (subject_description s)) ''person'' \<or>
       includes_str (toLowerCase (subject_description s)) ''man'' \<or>
       includes_str (toLowerCase (subject_description s)) ''woman'' \<or>
       includes_str (toLowerCase (subject_description s)) ''boy'' \<or>
       includes_str (toLowerCase (subject_description s)) ''girl'' \<or>
       includes_str (toLowerCase (subject_description s)) ''child''))"

text \<open>The callback of the \<open>.map((subject) => ...)\<close> that follows the filter.\<close>

definition subjectFaceRegion :: "Subject \<Rightarrow> FaceRegion" where
  "subjectFaceRegion subject =
     \<lparr> face_description = subject_description subject,
       position = bboxToPosition (boundingBox subject),
       distinguishingFeatures = distinctiveFeatures subject \<rparr>"

definition imageAnalysisToAnalysisResult :: "ImageAnalysis \<Rightarrow> AnalysisResult" where
  "imageAnalysisToAnalysisResult analysis =
     (let subjectElements = map_index subjectElement (subjects analysis);
          backgroundElements =
            map_index (backgroundElement (length (subjects analysis)))
              (keyElements (background analysis));
          elements0 = subjectElements @ backgroundElements;
          elements1 =
            (if length elements0 = 0
             then elements0 @
               [\<lparr> label = ''scene'',
                  importance = 1,
                  category = SubjectCategory,
                  element_description = background_description (background analysis) \<rparr>]
             else elements0);
          faces = map subjectFaceRegion
                    (filter (isFaceSubject (photoType analysis)) (subjects analysis));
          strategy = deriveBackgroundStrategy (background_complexity (background analysis))
                       (photoTypeString (photoType analysis));
          scene =
            (if length (subjects analysis) > 0
             then photoTypeString (photoType analysis) @ '': '' @
                  join '', '' (map subject_description (subjects analysis)) @
                  '' with '' @ background_description (background analysis)
             else background_description (background analysis));
          layout =
            (if photoTypeString (photoType analysis) = ''portrait'' then ''portrait close-up''
             else if photoTypeString (photoType analysis) = ''group'' then ''group scene''
             else if photoTypeString (photoType analysis) = ''landscape'' then ''landscape''
             else photoTypeString (photoType analysis))
      in \<lparr> elements = elements1,
           faceRegions = faces,
           sceneDescription = scene,
           spatialLayout = layout,
           backgroundStrategy = strategy \<rparr>)"

section \<open>Prompt composition (lib/prompts/generation.ts)\<close>

record ComplexityConfig =
  lineWeight :: string
  detailLevel :: string
  regionSize :: string
  ageDescription :: string
  additionalInstructions :: string

fun COMPLEXITY_CONFIG :: "ComplexityLevel \<Rightarrow> ComplexityConfig" where
  "COMPLEXITY_CONFIG Toddler =
     \<lparr> lineWeight = ''very thick, bold outlines (6-8px equivalent)'',
       detailLevel = ''extremely simplified, only the most basic shapes'',
       regionSize = ''very large coloring regions, no small details'',
       ageDescription = ''toddlers ages 2-4'',
       additionalInstructions = ''Reduce everything to basic geometric shapes. No small details, no textures, no patterns. Maximum 8-10 distinct regions to color.'' \<rparr>"
| "COMPLEXITY_CONFIG Child =
     \<lparr> lineWeight = ''thick, clear outlines (4-6px equivalent)'',
       detailLevel = ''simplified but recognizable, moderate detail'',
       regionSize = ''medium to large coloring regions'',
       ageDescription = ''children ages 5-8'',
       additionalInstructions = ''Keep shapes recognizable but simplified. Include some detail in clothing and hair. Around 15-25 distinct coloring regions.'' \<rparr>"
| "COMPLEXITY_CONFIG Tween =
     \<lparr> lineWeight = ''medium outlines (2-4px equivalent)'',
       detailLevel = ''detailed with clear shapes, moderate complexity'',
       regionSize = ''varied region sizes including some smaller details'',
       ageDescription = ''tweens ages 9-12'',
       additionalInstructions = ''Include detailed features like clothing folds, hair texture, and background elements. Around 30-50 distinct coloring regions.'' \<rparr>"
| "COMPLEXITY_CONFIG Adult =
     \<lparr> lineWeight = ''fine, precise outlines (1-3px equivalent)'',
       detailLevel = ''highly detailed, intricate patterns where appropriate'',
       regionSize = ''many small and detailed regions'',
       ageDescription = ''adults and advanced colorists'',
       additionalInstructions = ''Include fine details: fabric textures, individual leaves, architectural details, hair strands. Add decorative patterns in large empty areas. 50+ distinct coloring regions.'' \<rparr>"

text \<open>
  The em dash of the source's prompt texts, the only character of the source's strings
  outside ASCII, as its three UTF-8 bytes.
\<close>

definition em_dash :: string where
  "em_dash = [CHR 0xE2, CHR 0x80, CHR 0x94]"

definition buildSceneBlock :: "AnalysisResult \<Rightarrow> string" where
  "buildSceneBlock analysis =
     (let subjs = map element_description
                    (filter (\<lambda>el. category el = SubjectCategory) (elements analysis));
          objs = map element_description
                   (filter (\<lambda>el. category el = ObjectCategory) (elements analysis));
          parts0 = [''Scene: '' @ sceneDescription analysis @ ''.''];
          parts1 = (if length subjs > 0
                    then parts0 @ [''Main subjects: '' @ join '', '' subjs @ ''.'']
                    else parts0);
          parts2 = (if length objs > 0
                    then parts1 @ [''Also includes: '' @ join '', '' objs @ ''.'']
                    else parts1)
      in join '' '' parts2)"

definition buildFaceBlock :: "AnalysisResult \<Rightarrow> string" where
  "buildFaceBlock analysis =
     (if length (faceRegions analysis) = 0 then ''''
      else join ''; ''
             (map (\<lambda>face. face_description face @ '' ('' @ position face @ ''), features: '' @
                          join '', '' (distinguishingFeatures face))
                (faceRegions analysis)))"

fun buildBackgroundInstruction :: "BackgroundStrategy \<Rightarrow> string" where
  "buildBackgroundInstruction Remove = ''Pure white background, no background elements.''"
| "buildBackgroundInstruction Simplify =
     ''Minimally suggested background with only essential structural lines.''"
| "buildBackgroundInstruction PreserveStructure =
     ''Background shows recognizable shapes as simple outlines.''"
| "buildBackgroundInstruction PreserveDetail =
     ''Background included with full structural detail rendered as line art.''"

definition NEGATIVE_PROMPT_TERMS :: "string list" where
  "NEGATIVE_PROMPT_TERMS =
     [''color'',
      ''shading'',
      ''gradient'',
      ''gray'',
      ''grey'',
      ''shadow'',
      ''photograph'',
      ''photorealistic'',
      ''3d render'',
      ''watermark'',
      ''text'',
      ''signature'',
      ''blurry'',
      ''low quality'',
      ''filled areas'',
      ''solid black regions'',
      ''halftone'',
      ''crosshatch'',
      ''noise'',
      ''grain'']"

definition NEGATIVE_PROMPT :: string where
  "NEGATIVE_PROMPT = join '', '' NEGATIVE_PROMPT_TERMS"

text \<open>\<open>[task, preservation, style, constraints, complexity].filter(Boolean).join(" ")\<close>.\<close>

definition join_clauses :: "string list \<Rightarrow> string" where
  "join_clauses clauses = join '' '' (filter (\<lambda>s. s \<noteq> []) clauses)"

definition directTransform :: "ComplexityLevel \<Rightarrow> AnalysisResult option \<Rightarrow> string" where
  "directTransform complexityLevel analysisResult =
     (let config = COMPLEXITY_CONFIG complexityLevel;
          task = ''Convert this photograph into a coloring book page. Black and white line art drawing suitable for '' @ ageDescription config @ ''.'';
          preservation =
            (case analysisResult of
               Some ar \<Rightarrow>
                 (let scene = buildSceneBlock ar;
                      faces = buildFaceBlock ar
                  in if faces \<noteq> []
                     then scene @ '' The people must be recognizable as the same individuals. Preserve exact facial features, proportions, hairstyle, glasses: '' @ faces @ ''.''
                     else scene)
             | None \<Rightarrow> ''If people are present, the people must be recognizable as the same individuals. Preserve exact facial features, proportions, hairstyle, glasses.'');
          bg = (case analysisResult of
                  Some ar \<Rightarrow> buildBackgroundInstruction (backgroundStrategy ar)
                | None \<Rightarrow> ''Simplify the background to minimal structural outlines.'');
          style = ''Style: '' @ lineWeight config @ ''. Bold black outlines on pure white background. '' @ bg;
          constraints = ''No color, no shading, no gradients, no gray tones. Every region either pure black outline or pure white fill, nothing in between.'';
          cplx = ''Detail level: '' @ detailLevel config @ ''. Region sizes: '' @ regionSize config @ ''. '' @ additionalInstructions config
      in join_clauses [task, preservation, style, constraints, cplx])"

definition preservationHeavy :: "ComplexityLevel \<Rightarrow> AnalysisResult option \<Rightarrow> string" where
  "preservationHeavy complexityLevel analysisResult =
     (let config = COMPLEXITY_CONFIG complexityLevel;
          task = ''Convert this photograph into a coloring book page while maintaining the identity and likeness of every person. Black and white line art for '' @ ageDescription config @ ''.'';
          preservation =
            (case analysisResult of
               Some ar \<Rightarrow>
                 (let scene = buildSceneBlock ar;
                      faces = buildFaceBlock ar
                  in if faces \<noteq> []
                     then scene @ join ''''
                       ['' CRITICAL: The people must be recognizable as the same individuals from the original photo.'',
                        '' Preserve exact facial features, proportions, hairstyle, glasses for each person: '' @ faces @ ''.'',
                        '' Facial structure is the top priority '' @ em_dash @ '' jawline, nose shape, eye spacing, brow shape, and lip proportions must match the original.'',
                        '' Distinguishing accessories (glasses, earrings, hats, jewelry) must appear in their exact form.'']
                     else scene)
             | None \<Rightarrow> join '' ''
                 [''CRITICAL: The people must be recognizable as the same individuals from the original photo.'',
                  ''Preserve exact facial features, proportions, hairstyle, glasses.'',
                  ''Facial structure is the top priority '' @ em_dash @ '' jawline, nose shape, eye spacing, brow shape, and lip proportions must match the original.'',
                  ''Distinguishing accessories (glasses, earrings, hats, jewelry) must appear in their exact form.'']);
          bg = (case analysisResult of
                  Some ar \<Rightarrow> buildBackgroundInstruction (backgroundStrategy ar)
                | None \<Rightarrow> ''Simplify the background to keep focus on the people.'');
          style = ''Style: '' @ lineWeight config @ ''. Bold black outlines on pure white background. Use line weight variation to emphasize facial features '' @ em_dash @ '' thinner lines for facial detail, thicker for body contours. '' @ bg;
          constraints = ''No color, no shading, no gradients, no gray tones. Every region either pure black outline or pure white fill, nothing in between. Do not simplify faces '' @ em_dash @ '' only simplify non-face regions to match the target complexity.'';
          cplx = ''Detail level: '' @ detailLevel config @ ''. Region sizes: '' @ regionSize config @ ''. '' @ additionalInstructions config @ '' Exception: faces always retain full detail regardless of complexity level.''
      in join_clauses [task, preservation, style, constraints, cplx])"

definition simplificationHeavy :: "ComplexityLevel \<Rightarrow> AnalysisResult option \<Rightarrow> string" where
  "simplificationHeavy complexityLevel analysisResult =
     (let config = COMPLEXITY_CONFIG complexityLevel;
          task = ''Create a clean, professionally illustrated coloring book page from this photograph. Prioritize clear, unbroken outlines and well-defined coloring regions. Black and white line art for '' @ ageDescription config @ ''.'';
          preservation =
            (case analysisResult of
               Some ar \<Rightarrow>
                 (let scene = buildSceneBlock ar;
                      faces = buildFaceBlock ar
                  in if faces \<noteq> []
                     then scene @ '' The people must be recognizable as the same individuals. Preserve exact facial features, proportions, hairstyle, glasses, but render them with clean simplified strokes: '' @ faces @ ''.''
                     else scene)
             | None \<Rightarrow> ''If people are present, the people must be recognizable as the same individuals. Preserve exact facial features, proportions, hairstyle, glasses, but render them with clean simplified strokes.'');
          bg = (case analysisResult of
                  Some ar \<Rightarrow> buildBackgroundInstruction (backgroundStrategy ar)
                | None \<Rightarrow> ''Remove or heavily simplify the background.'');
          style = join '' ''
            [''Style: '' @ lineWeight config @ ''. Bold black outlines on pure white background.'',
             ''Every outline must be a single clean stroke '' @ em_dash @ '' no sketchy or doubled lines.'',
             ''Every enclosed region must be clearly bounded by unbroken lines with no gaps.'',
             ''Merge small adjacent details into larger, easier-to-color regions.'',
             bg];
          constraints = ''No color, no shading, no gradients, no gray tones. Every region either pure black outline or pure white fill, nothing in between. No cross-hatching, no stippling, no texture marks, no decorative fills inside regions.'';
          cplx = ''Detail level: '' @ detailLevel config @ ''. Region sizes: '' @ regionSize config @ ''. '' @ additionalInstructions config @ '' When in doubt, simplify further '' @ em_dash @ '' fewer well-defined regions are better than many ambiguous ones.''
      in join_clauses [task, preservation, style, constraints, cplx])"

fun VARIANT_BUILDERS ::
  "PromptVariant \<Rightarrow> ComplexityLevel \<Rightarrow> AnalysisResult option \<Rightarrow> string" where
  "VARIANT_BUILDERS DirectTransform = directTransform"
| "VARIANT_BUILDERS PreservationHeavy = preservationHeavy"
| "VARIANT_BUILDERS SimplificationHeavy = simplificationHeavy"

record GenerationPrompt =
  prompt :: string
  negativePrompt :: string

definition buildGenerationPrompt ::
  "PromptVariant \<Rightarrow> ComplexityLevel \<Rightarrow> AnalysisResult option \<Rightarrow> GenerationPrompt" where
  "buildGenerationPrompt variant complexityLevel analysisResult =
     (let builder = VARIANT_BUILDERS variant
      in \<lparr> prompt = builder complexityLevel analysisResult,
           negativePrompt = NEGATIVE_PROMPT \<rparr>)"

definition buildEditPrompt ::
  "PromptVariant \<Rightarrow> ComplexityLevel \<Rightarrow> AnalysisResult option \<Rightarrow> string" where
  "buildEditPrompt variant complexityLevel analysisResult =
     (let builder = VARIANT_BUILDERS variant;
          positivePrompt = builder complexityLevel analysisResult
      in positivePrompt @ '' MUST NOT include: '' @ NEGATIVE_PROMPT @ ''.'')"

record InferenceConfig =
  numInferenceSteps :: nat
  guidanceScale :: rat

fun getInferenceConfig :: "ComplexityLevel \<Rightarrow> InferenceConfig" where
  "getInferenceConfig Toddler = \<lparr> numInferenceSteps = 20, guidanceScale = 8 \<rparr>"
| "getInferenceConfig Child = \<lparr> numInferenceSteps = 25, guidanceScale = 75 / 10 \<rparr>"
| "getInferenceConfig Tween = \<lparr> numInferenceSteps = 30, guidanceScale = 75 / 10 \<rparr>"
| "getInferenceConfig Adult = \<lparr> numInferenceSteps = 35, guidanceScale = 7 \<rparr>"

section \<open>Batch types (lib/batch/types.ts)\<close>

text \<open>
  The batch constants are arrays of string literals that the page casts to
  \<open>ComplexityLevel\<close> and \<open>PromptVariant\<close>; here they are lists of the datatypes, and
  \<open>complexityLevelString\<close> and \<open>promptVariantString\<close> give the string each member is at
  run time.
\<close>

fun complexityLevelString :: "ComplexityLevel \<Rightarrow> string" where
  "complexityLevelString Toddler = ''toddler''"
| "complexityLevelString Child = ''child''"
| "complexityLevelString Tween = ''tween''"
| "complexityLevelString Adult = ''adult''"

fun promptVariantString :: "PromptVariant \<Rightarrow> string" where
  "promptVariantString DirectTransform = ''direct-transform''"
| "promptVariantString PreservationHeavy = ''preservation-heavy''"
| "promptVariantString SimplificationHeavy = ''simplification-heavy''"

definition BATCH_COMPLEXITY_LEVELS :: "ComplexityLevel list" where
  "BATCH_COMPLEXITY_LEVELS = [Child, Adult]"

definition BATCH_VARIANTS :: "PromptVariant list" where
  "BATCH_VARIANTS = [DirectTransform, PreservationHeavy, SimplificationHeavy]"

datatype ModelType = EditModel | TextToImageModel

record GenerationModel =
  model_id :: string
  model_label :: string
  model_type :: ModelType

definition GENERATION_MODELS :: "GenerationModel list" where
  "GENERATION_MODELS =
     [\<lparr> model_id = ''fal-ai/nano-banana-pro/edit'',
        model_label = ''Nano Banana Pro'',
        model_type = EditModel \<rparr>,
      \<lparr> model_id = ''fal-ai/gpt-image-1.5/edit'',
        model_label = ''GPT Image 1.5'',
        model_type = EditModel \<rparr>,
      \<lparr> model_id = ''fal-ai/nano-banana/edit'',
        model_label = ''Nano Banana'',
        model_type = EditModel \<rparr>,
      \<lparr> model_id = ''fal-ai/gemini-3-pro-image-preview/edit'',
        model_label = ''Gemini 3 Pro Preview'',
        model_type = EditModel \<rparr>,
      \<lparr> model_id = ''fal-ai/fast-sdxl'',
        model_label = ''Fast SDXL (text-to-image)'',
        model_type = TextToImageModel \<rparr>]"

record GenerationResult =
  imageUrl :: string
  result_width :: "rat option"
  result_height :: "rat option"
  result_model :: string
  promptUsed :: string
  negativePromptUsed :: "string option"
  seed :: "rat option"
  result_description :: "string option"

record BatchResult =
  br_model :: string
  br_modelLabel :: string
  br_complexity :: string
  br_variant :: string
  br_outputFileName :: string
  br_generation :: GenerationResult
  br_generationMs :: nat
  br_postProcessMs :: nat
  br_ratings :: "string \<rightharpoonup> rat"
  br_error :: "string option"

record BatchAnalysis =
  imageAnalysis :: ImageAnalysis
  analysisResult :: AnalysisResult
  timingMs :: nat

record BatchRun =
  run_id :: string
  run_timestamp :: string
  run_inputFileName :: string
  totalIterations :: nat
  completedIterations :: nat
  failedIterations :: nat
  run_results :: "BatchResult list"

text \<open>\<open>model.replace(/^fal-ai\//, "")\<close>: an anchored pattern, replaced once.\<close>

definition replace_prefix :: "string \<Rightarrow> string \<Rightarrow> string" where
  "replace_prefix p s = (if prefix p s then drop (length p) s else s)"

text \<open>\<open>s.replace(/\/edit$/, "")\<close>.\<close>

definition replace_suffix :: "string \<Rightarrow> string \<Rightarrow> string" where
  "replace_suffix q s = (if suffix q s then take (length s - length q) s else s)"

text \<open>The character class \<open>[a-z0-9-]\<close>.\<close>

definition slug_char_ok :: "char \<Rightarrow> bool" where
  "slug_char_ok c = (c \<in> set ''abcdefghijklmnopqrstuvwxyz0123456789-'')"

text \<open>\<open>s.replace(/[^a-z0-9-]/g, "-")\<close>.\<close>

definition replace_non_slug :: "string \<Rightarrow> string" where
  "replace_non_slug s = map (\<lambda>c. if slug_char_ok c then c else CHR ''-'') s"

definition buildOutputFileName :: "string \<Rightarrow> string \<Rightarrow> string \<Rightarrow> string" where
  "buildOutputFileName cplx variant model =
     (let modelSlug = replace_non_slug (replace_suffix ''/edit'' (replace_prefix ''fal-ai/'' model))
      in cplx @ ''--'' @ variant @ ''--'' @ modelSlug @ ''.png'')"

section \<open>Server actions of the batch page (app/batch/actions.ts)\<close>

text \<open>
  The calls that leave the process (storage, the upload, the vision call, the two
  generation endpoints, the image transform) are fields of a record of services. A call
  that throws returns \<open>Inl msg\<close>, where \<open>msg\<close> is the string \<open>fail\<close> makes of the thrown
  value (\<open>error.message\<close>, or \<open>String(error)\<close>); a call that returns gives \<open>Inr\<close> of its
  value. A buffer is the string of its bytes. The readings of \<open>randomUUID\<close>, \<open>Date\<close> and
  \<open>performance.now\<close> are fields of the record too (\<open>dateNow\<close> is \<open>Date.now()\<close> as the
  string it becomes in a concatenation). The round trip
  \<open>JSON.parse(JSON.stringify(...))\<close> of a result leaves the modelled fields as they are.

  The same request can succeed at one time and fail at another. So every service that
  \<open>generateIterationAction\<close> calls takes, before the arguments the source passes, the
  number \<open>n\<close> of \<open>generateIterationAction\<close> calls that the run has made before this one,
  and \<open>generateIterationAction\<close> itself takes that number from the page's loop.
\<close>

datatype 'a ActionResult = Success 'a | Failure string

record File =
  file_name :: string
  file_bytes :: string

record EditImageResponse =
  edit_images :: "string list"
  edit_description :: "string option"

record GeneratedImage =
  image_url :: string
  image_width :: "rat option"
  image_height :: "rat option"

record ImageGenerationResponse =
  gen_images :: "GeneratedImage list"
  gen_seed :: rat

record Services =
  randomUUID :: string
  dateNow :: string
  initBatchDir :: "string \<Rightarrow> string + unit"
  saveInputImage :: "string \<Rightarrow> string \<Rightarrow> string \<Rightarrow> string + string"
  uploadToFalStorage :: "File \<Rightarrow> string + string"
  analyzePhoto :: "string \<Rightarrow> string + ImageAnalysis"
  analysisElapsedMs :: nat
  saveAnalysis :: "string \<Rightarrow> BatchAnalysis \<Rightarrow> string + unit"
  callImageEdit :: "nat \<Rightarrow> string \<Rightarrow> string \<Rightarrow> string list \<Rightarrow> string + EditImageResponse"
  callImageGeneration ::
    "nat \<Rightarrow> string \<Rightarrow> string \<Rightarrow> nat \<Rightarrow> rat \<Rightarrow> string + ImageGenerationResponse"
  generationElapsedMs :: "nat \<Rightarrow> nat"
  postProcessColoringPage :: "nat \<Rightarrow> string \<Rightarrow> string + string"
  postProcessElapsedMs :: "nat \<Rightarrow> nat"
  saveOutputImage :: "nat \<Rightarrow> string \<Rightarrow> string \<Rightarrow> string \<Rightarrow> string + unit"
  saveMetadata :: "string \<Rightarrow> BatchRun \<Rightarrow> string + unit"
  currentTimestamp :: string

definition fail :: "string \<Rightarrow> 'a ActionResult" where
  "fail message = Failure message"

record InitBatchResult =
  init_batchId :: string
  init_imageUrl :: string
  init_inputFileName :: string
  init_analysis :: BatchAnalysis

definition initBatchAction :: "Services \<Rightarrow> File option \<Rightarrow> InitBatchResult ActionResult" where
  "initBatchAction sv formImage =
     (case formImage of
        None \<Rightarrow> fail ''No image file provided''
      | Some file \<Rightarrow>
          (let batchId = take 8 (randomUUID sv) @ ''-'' @ dateNow sv
           in case initBatchDir sv batchId of
                Inl e \<Rightarrow> fail e
              | Inr _ \<Rightarrow>
                  (let buffer = file_bytes file;
                       ext = (case split_on CHR ''.'' (file_name file) of
                                [] \<Rightarrow> ''png''
                              | part # parts \<Rightarrow> last (part # parts))
                   in case saveInputImage sv batchId buffer ext of
                        Inl e \<Rightarrow> fail e
                      | Inr inputFileName \<Rightarrow>
                          (case uploadToFalStorage sv file of
                             Inl e \<Rightarrow> fail e
                           | Inr uploadedUrl \<Rightarrow>
                               (case analyzePhoto sv uploadedUrl of
                                  Inl e \<Rightarrow> fail e
                                | Inr ia \<Rightarrow>
                                    (let analysis =
                                           \<lparr> imageAnalysis = ia,
                                             analysisResult = imageAnalysisToAnalysisResult ia,
                                             timingMs = analysisElapsedMs sv \<rparr>
                                     in case saveAnalysis sv batchId analysis of
                                          Inl e \<Rightarrow> fail e
                                        | Inr _ \<Rightarrow>
                                            Success
                                              \<lparr> init_batchId = batchId,
                                                init_imageUrl = uploadedUrl,
                                                init_inputFileName = inputFileName,
                                                init_analysis = analysis \<rparr>))))))"

record GenerateIterationParams =
  p_batchId :: string
  p_imageUrl :: string
  p_analysisResult :: AnalysisResult
  p_model :: string
  p_complexity :: ComplexityLevel
  p_variant :: PromptVariant

record GenerateIterationResult =
  outputFileName :: string
  modelLabel :: string
  generation :: GenerationResult
  generationMs :: nat
  postProcessMs :: nat

text \<open>
  The first branch of \<open>generateIterationAction\<close>: the generation call of an edit
  endpoint or of a text-to-image endpoint, up to the \<open>GenerationResult\<close>.
\<close>

definition generateImage ::
  "Services \<Rightarrow> nat \<Rightarrow> bool \<Rightarrow> GenerateIterationParams \<Rightarrow> string + GenerationResult" where
  "generateImage sv n isEdit params =
     (if isEdit then
        (let prompt = buildEditPrompt (p_variant params) (p_complexity params)
                        (Some (p_analysisResult params))
         in case callImageEdit sv n (p_model params) prompt [p_imageUrl params] of
              Inl e \<Rightarrow> Inl e
            | Inr response \<Rightarrow>
                (case edit_images response of
                   [] \<Rightarrow> Inl ''Edit returned no images''
                 | firstImage # _ \<Rightarrow>
                     Inr \<lparr> imageUrl = firstImage,
                           result_width = None,
                           result_height = None,
                           result_model = p_model params,
                           promptUsed = prompt,
                           negativePromptUsed = None,
                           seed = None,
                           result_description = edit_description response \<rparr>))
      else
        (let gp = buildGenerationPrompt (p_variant params) (p_complexity params)
                    (Some (p_analysisResult params));
             inferenceConfig = getInferenceConfig (p_complexity params)
         in case callImageGeneration sv n (prompt gp) (negativePrompt gp)
                   (numInferenceSteps inferenceConfig) (guidanceScale inferenceConfig) of
              Inl e \<Rightarrow> Inl e
            | Inr response \<Rightarrow>
                (case gen_images response of
                   [] \<Rightarrow> Inl ''Generation returned no images''
                 | firstImage # _ \<Rightarrow>
                     Inr \<lparr> imageUrl = image_url firstImage,
                           result_width = image_width firstImage,
                           result_height = image_height firstImage,
                           result_model = p_model params,
                           promptUsed = prompt gp,
                           negativePromptUsed = Some (negativePrompt gp),
                           seed = Some (gen_seed response),
                           result_description = None \<rparr>)))"

definition generateIterationAction ::
  "Services \<Rightarrow> nat \<Rightarrow> GenerateIterationParams \<Rightarrow> GenerateIterationResult ActionResult" where
  "generateIterationAction sv n params =
     (let modelInfo = find (\<lambda>m. model_id m = p_model params) GENERATION_MODELS;
          labelOfModel = (case modelInfo of Some m \<Rightarrow> model_label m | None \<Rightarrow> p_model params);
          isEdit = ((case modelInfo of Some m \<Rightarrow> model_type m = EditModel | None \<Rightarrow> False)
                    \<or> suffix ''/edit'' (p_model params));
          fileName = buildOutputFileName (complexityLevelString (p_complexity params))
                       (promptVariantString (p_variant params)) (p_model params)
      in case generateImage sv n isEdit params of
           Inl e \<Rightarrow> fail e
         | Inr gen \<Rightarrow>
             (case postProcessColoringPage sv n (imageUrl gen) of
                Inl e \<Rightarrow> fail e
              | Inr finalImage \<Rightarrow>
                  (case saveOutputImage sv n (p_batchId params) fileName finalImage of
                     Inl e \<Rightarrow> fail e
                   | Inr _ \<Rightarrow>
                       Success
                         \<lparr> outputFileName = fileName,
                           modelLabel = labelOfModel,
                           generation = gen,
                           generationMs = generationElapsedMs sv n,
                           postProcessMs = postProcessElapsedMs sv n \<rparr>)))"

definition saveBatchAction :: "Services \<Rightarrow> BatchRun \<Rightarrow> unit ActionResult" where
  "saveBatchAction sv batchRun =
     (case saveMetadata sv (run_id batchRun) batchRun of
        Inl e \<Rightarrow> fail e
      | Inr _ \<Rightarrow> Success ())"

section \<open>The batch page (app/batch/page.tsx)\<close>

definition TOTAL_ITERATIONS :: nat where
  "TOTAL_ITERATIONS =
     length BATCH_COMPLEXITY_LEVELS * length BATCH_VARIANTS * length GENERATION_MODELS"

datatype BatchPhase = PhaseUpload | PhaseAnalyzing | PhaseGenerating | PhaseDone | PhaseError

text \<open>
  The React state of the page, one field per \<open>useState\<close> value that the two handlers
  read or write (\<open>st_timerRunning\<close> stands for the elapsed timer between \<open>timer.start()\<close>
  and \<open>timer.stop()\<close>).
\<close>

record PageState =
  st_file :: "File option"
  st_phase :: BatchPhase
  st_batchId :: "string option"
  st_inputFileName :: "string option"
  st_analysis :: "BatchAnalysis option"
  st_results :: "BatchResult list"
  st_completedCount :: nat
  st_currentLabel :: string
  st_errors :: "string list"
  st_error :: "string option"
  st_ratings :: "string \<rightharpoonup> (string \<rightharpoonup> rat)"
  st_saved :: bool
  st_timerRunning :: bool

text \<open>
  The variables of the generating loop: the two local arrays, the page state after the
  setters called so far, and the \<open>generateIterationAction\<close> calls awaited so far, in
  order.
\<close>

record BatchLoop =
  allResults :: "BatchResult list"
  allErrors :: "string list"
  loop_state :: PageState
  loop_calls :: "GenerateIterationParams list"

text \<open>The argument of the \<open>generateIterationAction\<close> call of one iteration.\<close>

definition iterationParams ::
  "InitBatchResult \<Rightarrow> GenerationModel \<Rightarrow> ComplexityLevel \<Rightarrow> PromptVariant \<Rightarrow>
     GenerateIterationParams" where
  "iterationParams init model cplx variant =
     \<lparr> p_batchId = init_batchId init,
       p_imageUrl = init_imageUrl init,
       p_analysisResult = analysisResult (init_analysis init),
       p_model = model_id model,
       p_complexity = cplx,
       p_variant = variant \<rparr>"

text \<open>The object pushed to \<open>allResults\<close> in the \<open>iterResult.success\<close> branch.\<close>

definition successResult ::
  "GenerationModel \<Rightarrow> ComplexityLevel \<Rightarrow> PromptVariant \<Rightarrow> GenerateIterationResult \<Rightarrow>
     BatchResult" where
  "successResult model cplx variant d =
     \<lparr> br_model = model_id model,
       br_modelLabel = modelLabel d,
       br_complexity = complexityLevelString cplx,
       br_variant = promptVariantString variant,
       br_outputFileName = outputFileName d,
       br_generation = generation d,
       br_generationMs = generationMs d,
       br_postProcessMs = postProcessMs d,
       br_ratings = Map.empty,
       br_error = None \<rparr>"

text \<open>The object pushed to \<open>allResults\<close> in the \<open>else\<close> branch.\<close>

definition failureResult ::
  "GenerationModel \<Rightarrow> ComplexityLevel \<Rightarrow> PromptVariant \<Rightarrow> string \<Rightarrow> BatchResult" where
  "failureResult model cplx variant e =
     \<lparr> br_model = model_id model,
       br_modelLabel = model_label model,
       br_complexity = complexityLevelString cplx,
       br_variant = promptVariantString variant,
       br_outputFileName =
         buildOutputFileName (complexityLevelString cplx) (promptVariantString variant)
           (model_id model),
       br_generation =
         \<lparr> imageUrl = [],
           result_width = None,
           result_height = None,
           result_model = model_id model,
           promptUsed = [],
           negativePromptUsed = None,
           seed = None,
           result_description = None \<rparr>,
       br_generationMs = 0,
       br_postProcessMs = 0,
       br_ratings = Map.empty,
       br_error = Some e \<rparr>"

text \<open>The body of the innermost \<open>for\<close> loop of \<open>handleRunAll\<close>.\<close>

definition runIteration ::
  "Services \<Rightarrow> InitBatchResult \<Rightarrow> GenerationModel \<Rightarrow> ComplexityLevel \<Rightarrow> PromptVariant \<Rightarrow>
     BatchLoop \<Rightarrow> BatchLoop" where
  "runIteration sv init model cplx variant l =
     (let caption = complexityLevelString cplx @ '' / '' @ promptVariantString variant @
                    '' / '' @ model_label model;
          params = iterationParams init model cplx variant;
          iterResult = generateIterationAction sv (length (loop_calls l)) params;
          results' =
            (case iterResult of
               Success d \<Rightarrow> allResults l @ [successResult model cplx variant d]
             | Failure e \<Rightarrow> allResults l @ [failureResult model cplx variant e]);
          errors' =
            (case iterResult of
               Success d \<Rightarrow> allErrors l
             | Failure e \<Rightarrow> allErrors l @ [caption @ '': '' @ e])
      in \<lparr> allResults = results',
           allErrors = errors',
           loop_state = (loop_state l)
             \<lparr> st_currentLabel := caption,
               st_results := results',
               st_errors := errors',
               st_completedCount := length results' \<rparr>,
           loop_calls = loop_calls l @ [params] \<rparr>)"

text \<open>
  The three nested \<open>for ... of\<close> loops: models outermost, then complexity levels, then
  variants.
\<close>

definition generateAll ::
  "Services \<Rightarrow> InitBatchResult \<Rightarrow> GenerationModel list \<Rightarrow> ComplexityLevel list \<Rightarrow>
     PromptVariant list \<Rightarrow> BatchLoop \<Rightarrow> BatchLoop" where
  "generateAll sv init models levels variants l =
     fold (\<lambda>model.
        fold (\<lambda>cplx.
          fold (\<lambda>variant. runIteration sv init model cplx variant) variants)
          levels)
       models l"

text \<open>
  \<open>handleRunAll\<close> over any three arrays; the page runs it on \<open>GENERATION_MODELS\<close>,
  \<open>BATCH_COMPLEXITY_LEVELS\<close> and \<open>BATCH_VARIANTS\<close>. The result is the page state when the
  handler returns, with the \<open>generateIterationAction\<close> calls it made.
\<close>

definition runAll ::
  "Services \<Rightarrow> GenerationModel list \<Rightarrow> ComplexityLevel list \<Rightarrow> PromptVariant list \<Rightarrow>
     PageState \<Rightarrow> PageState \<times> GenerateIterationParams list" where
  "runAll sv models levels variants st =
     (case st_file st of
        None \<Rightarrow> (st, [])
      | Some f \<Rightarrow>
          (let st1 = st \<lparr> st_phase := PhaseAnalyzing,
                          st_error := None,
                          st_results := [],
                          st_errors := [],
                          st_completedCount := 0,
                          st_saved := False,
                          st_timerRunning := True \<rparr>
           in case initBatchAction sv (Some f) of
                Failure e \<Rightarrow>
                  (st1 \<lparr> st_error := Some e,
                         st_phase := PhaseError,
                         st_timerRunning := False \<rparr>, [])
              | Success init \<Rightarrow>
                  (let st2 = st1 \<lparr> st_batchId := Some (init_batchId init),
                                   st_inputFileName := Some (init_inputFileName init),
                                   st_analysis := Some (init_analysis init),
                                   st_phase := PhaseGenerating \<rparr>;
                       l = generateAll sv init models levels variants
                             \<lparr> allResults = [],
                               allErrors = [],
                               loop_state = st2,
                               loop_calls = [] \<rparr>
                   in ((loop_state l) \<lparr> st_timerRunning := False, st_phase := PhaseDone \<rparr>,
                       loop_calls l))))"

definition handleRunAll ::
  "Services \<Rightarrow> PageState \<Rightarrow> PageState \<times> GenerateIterationParams list" where
  "handleRunAll sv st = runAll sv GENERATION_MODELS BATCH_COMPLEXITY_LEVELS BATCH_VARIANTS st"

text \<open>\<open>r.error\<close> in a boolean position: present and not the empty string.\<close>

definition hasError :: "BatchResult \<Rightarrow> bool" where
  "hasError r = (case br_error r of None \<Rightarrow> False | Some e \<Rightarrow> e \<noteq> [])"

text \<open>
  \<open>handleSave\<close> over a given iteration total; the page passes \<open>TOTAL_ITERATIONS\<close>. The
  result is the page state when the handler returns, with the \<open>BatchRun\<close> it passed to
  \<open>saveBatchAction\<close>, if it got that far: \<open>!batchId || !file\<close> holds when there is no
  batch id, or an empty one, or no file.
\<close>

definition saveRun :: "Services \<Rightarrow> nat \<Rightarrow> PageState \<Rightarrow> PageState \<times> BatchRun option" where
  "saveRun sv expected st =
     (case st_batchId st of
        None \<Rightarrow> (st, None)
      | Some batchId \<Rightarrow>
          (case st_file st of
             None \<Rightarrow> (st, None)
           | Some f \<Rightarrow>
               if batchId = [] then (st, None)
               else
               (let batchRun =
                      \<lparr> run_id = batchId,
                        run_timestamp = currentTimestamp sv,
                        run_inputFileName =
                          (case st_inputFileName st of Some n \<Rightarrow> n | None \<Rightarrow> file_name f),
                        totalIterations = expected,
                        completedIterations = length (filter (\<lambda>r. \<not> hasError r) (st_results st)),
                        failedIterations = length (filter (\<lambda>r. hasError r) (st_results st)),
                        run_results =
                          map (\<lambda>r. r \<lparr> br_ratings :=
                                   (case st_ratings st (br_outputFileName r) of
                                      Some rt \<Rightarrow> rt
                                    | None \<Rightarrow> br_ratings r) \<rparr>)
                            (st_results st) \<rparr>
                in case saveBatchAction sv batchRun of
                     Failure e \<Rightarrow> (st \<lparr> st_error := Some e \<rparr>, Some batchRun)
                   | Success _ \<Rightarrow> (st \<lparr> st_saved := True \<rparr>, Some batchRun))))"

definition handleSave :: "Services \<Rightarrow> PageState \<Rightarrow> PageState \<times> BatchRun option" where
  "handleSave sv st = saveRun sv TOTAL_ITERATIONS st"

section \<open>The specification's wording, for comparison with the code\<close>

text \<open>
  The position buckets as the specification words them: a horizontal bucket and a
  vertical bucket, each possibly unset, and their combination.
\<close>

definition spec_horizontalBucket :: "rat \<Rightarrow> string option" where
  "spec_horizontalBucket h =
     (if h < 33 / 100 then Some ''left'' else if h > 66 / 100 then Some ''right'' else None)"

definition spec_verticalBucket :: "rat \<Rightarrow> string option" where
  "spec_verticalBucket v =
     (if v < 33 / 100 then Some ''top'' else if v > 66 / 100 then Some ''bottom'' else None)"

fun spec_combineBuckets :: "string option \<Rightarrow> string option \<Rightarrow> string" where
  "spec_combineBuckets (Some v) (Some h) = v @ ''-'' @ h"
| "spec_combineBuckets None (Some h) = h"
| "spec_combineBuckets (Some v) None = v"
| "spec_combineBuckets None None = ''center''"

text \<open>The seven position strings the specification declares for a face region.\<close>

definition spec_declaredPositions :: "string list" where
  "spec_declaredPositions =
     [''center'', ''left'', ''right'', ''top-left'', ''top-right'', ''bottom-left'',
      ''bottom-right'']"

text \<open>
  The position of the centre of a bounding box, whose \<open>x\<close> and \<open>y\<close> are its top-left
  corner (the analysis prompt asks the vision model for "x and y for the top-left
  corner, width and height as fractions of the full image").
\<close>

definition spec_centerPosition :: "BoundingBox \<Rightarrow> string" where
  "spec_centerPosition bbox =
     spec_combineBuckets (spec_verticalBucket (bbox_y bbox + bbox_height bbox / 2))
       (spec_horizontalBucket (bbox_x bbox + bbox_width bbox / 2))"

text \<open>The order of the complexity levels: toddler, child, tween, adult.\<close>

fun levelRank :: "ComplexityLevel \<Rightarrow> nat" where
  "levelRank Toddler = 0"
| "levelRank Child = 1"
| "levelRank Tween = 2"
| "levelRank Adult = 3"

text \<open>
  The iterations of a batch in the order the specification fixes: outer = model,
  middle = complexity, inner = variant.
\<close>

definition spec_iterations ::
  "GenerationModel list \<Rightarrow> ComplexityLevel list \<Rightarrow> PromptVariant list \<Rightarrow>
     (GenerationModel \<times> ComplexityLevel \<times> PromptVariant) list" where
  "spec_iterations models levels variants =
     concat (map (\<lambda>m. concat (map (\<lambda>c. map (\<lambda>v. (m, c, v)) variants) levels)) models)"

text \<open>
  The entry the specification expects for the iteration number \<open>n\<close> of a run: the data
  of a successful call, or an entry with the error and empty generation data.
\<close>

definition spec_recorded ::
  "Services \<Rightarrow> InitBatchResult \<Rightarrow> nat \<times> GenerationModel \<times> ComplexityLevel \<times> PromptVariant \<Rightarrow>
     BatchResult" where
  "spec_recorded sv init it =
     (case it of (n, m, c, v) \<Rightarrow>
        (case generateIterationAction sv n (iterationParams init m c v) of
           Success d \<Rightarrow> successResult m c v d
         | Failure e \<Rightarrow> failureResult m c v e))"

text \<open>
  The accounting the specification asks of a saved \<open>BatchRun\<close>, for the iterations
  \<open>its\<close> of the run that produced it: the completed count is the number of results
  without an error, the failed count the number of results with one, the two add up to
  the total, the total is the number of iterations, and every iteration has exactly one
  entry, in order (\<open>enumerate 0 its\<close> numbers the iterations from 0), with the error of
  its call if it failed. A result is without an error when its optional \<open>error\<close> field
  is absent, and with an error when the field is present.
\<close>

definition spec_accounting ::
  "Services \<Rightarrow> InitBatchResult \<Rightarrow> (GenerationModel \<times> ComplexityLevel \<times> PromptVariant) list \<Rightarrow>
     BatchRun \<Rightarrow> bool" where
  "spec_accounting sv init its run \<longleftrightarrow>
     completedIterations run = length (filter (\<lambda>r. br_error r = None) (run_results run)) \<and>
     failedIterations run = length (filter (\<lambda>r. br_error r \<noteq> None) (run_results run)) \<and>
     completedIterations run + failedIterations run = totalIterations run \<and>
     totalIterations run = length its \<and>
     length (run_results run) = length its \<and>
     map (\<lambda>r. (br_model r, br_complexity r, br_variant r, br_error r)) (run_results run) =
       map (\<lambda>(n, m, c, v). (model_id m, complexityLevelString c, promptVariantString v,
                              br_error (spec_recorded sv init (n, m, c, v))))
         (enumerate 0 its)"

section \<open>Example runs\<close>

text \<open>
  A photo, its analysis and the services of a run in which every call succeeds, apart
  from the vision call, the edit endpoint and the text-to-image endpoint, which are
  given.
\<close>

definition example_file :: File where
  "example_file = \<lparr> file_name = ''family.jpg'', file_bytes = ''JPEG'' \<rparr>"

definition example_analysis :: ImageAnalysis where
  "example_analysis =
     \<lparr> photoType = Portrait,
       subjects = [\<lparr> subject_description = ''smiling grandmother with round glasses'',
                     boundingBox = \<lparr> bbox_x = 3 / 10, bbox_y = 2 / 10,
                                     bbox_width = 4 / 10, bbox_height = 6 / 10 \<rparr>,
                     distinctiveFeatures = [''round glasses''] \<rparr>],
       background = \<lparr> background_description = ''a kitchen'',
                      background_complexity = 4, keyElements = [''window''] \<rparr>,
       preservationPriorities = [''round glasses''],
       simplificationTargets = [] \<rparr>"

definition example_services ::
  "(string \<Rightarrow> string + ImageAnalysis) \<Rightarrow>
   (nat \<Rightarrow> string \<Rightarrow> string \<Rightarrow> string list \<Rightarrow> string + EditImageResponse) \<Rightarrow>
   (nat \<Rightarrow> string \<Rightarrow> string \<Rightarrow> nat \<Rightarrow> rat \<Rightarrow> string + ImageGenerationResponse) \<Rightarrow> Services" where
  "example_services analyze edit generate =
     \<lparr> randomUUID = ''1a2b3c4d-5e6f-4a7b-8c9d-0e1f2a3b4c5d'',
       dateNow = ''1700000000000'',
       initBatchDir = (\<lambda>_. Inr ()),
       saveInputImage = (\<lambda>_ _ ext. Inr (''input.'' @ ext)),
       uploadToFalStorage = (\<lambda>_. Inr ''https://fal.media/files/input.jpg''),
       analyzePhoto = analyze,
       analysisElapsedMs = 4200,
       saveAnalysis = (\<lambda>_ _. Inr ()),
       callImageEdit = edit,
       callImageGeneration = generate,
       generationElapsedMs = (\<lambda>_. 9000),
       postProcessColoringPage = (\<lambda>_ _. Inr ''PNG''),
       postProcessElapsedMs = (\<lambda>_. 300),
       saveOutputImage = (\<lambda>_ _ _ _. Inr ()),
       saveMetadata = (\<lambda>_ _. Inr ()),
       currentTimestamp = ''2025-01-01T00:00:00.000Z'' \<rparr>"

text \<open>What the two generation endpoints return when they succeed.\<close>

definition example_edit_response :: EditImageResponse where
  "example_edit_response =
     \<lparr> edit_images = [''https://fal.media/files/out.png''], edit_description = None \<rparr>"

definition example_generation_response :: ImageGenerationResponse where
  "example_generation_response =
     \<lparr> gen_images = [\<lparr> image_url = ''https://fal.media/files/sdxl.png'',
                        image_width = Some 1024,
                        image_height = Some 1024 \<rparr>],
       gen_seed = 7 \<rparr>"



text \<open>
  The vision call succeeds, and the text-to-image endpoint fails when it is asked for
  the 35 inference steps of the adult level.
\<close>

definition example_adult_down :: Services where
  "example_adult_down =
     example_services (\<lambda>_. Inr example_analysis)
       (\<lambda>_ _ _ _. Inr example_edit_response)
       (\<lambda>_ _ _ steps _.
          if steps = 35 then Inl ''Generation timed out''
          else Inr example_generation_response)"

text \<open>
  The text-to-image endpoint rejects with an \<open>Error\<close> whose message is the empty
  string, at every call, or only when it is asked for the 35 inference steps of the
  adult level. \<open>callImageGeneration\<close> lets a rejection of the client library through
  as it is, and \<open>fail\<close> returns its message.
\<close>

definition example_generation_silent :: Services where
  "example_generation_silent =
     example_services (\<lambda>_. Inr example_analysis)
       (\<lambda>_ _ _ _. Inr example_edit_response)
       (\<lambda>_ _ _ _ _. Inl [])"

definition example_adult_silent :: Services where
  "example_adult_silent =
     example_services (\<lambda>_. Inr example_analysis)
       (\<lambda>_ _ _ _. Inr example_edit_response)
       (\<lambda>_ _ _ steps _.
          if steps = 35 then Inl []
          else Inr example_generation_response)"


text \<open>The text-to-image entry of \<open>GENERATION_MODELS\<close>.\<close>

definition example_model :: GenerationModel where
  "example_model =
     \<lparr> model_id = ''fal-ai/fast-sdxl'',
       model_label = ''Fast SDXL (text-to-image)'',
       model_type = TextToImageModel \<rparr>"

text \<open>The page after the photo was dropped on it, before the first run.\<close>

definition example_state :: PageState where
  "example_state =
     \<lparr> st_file = Some example_file,
       st_phase = PhaseUpload,
       st_batchId = None,
       st_inputFileName = None,
       st_analysis = None,
       st_results = [],
       st_completedCount = 0,
       st_currentLabel = [],
       st_errors = [],
       st_error = None,
       st_ratings = Map.empty,
       st_saved = False,
       st_timerRunning = False \<rparr>"

text \<open>What \<open>initBatchAction\<close> returns when the vision call succeeds.\<close>

definition example_init :: InitBatchResult where
  "example_init =
     \<lparr> init_batchId = ''1a2b3c4d-1700000000000'',
       init_imageUrl = ''https://fal.media/files/input.jpg'',
       init_inputFileName = ''input.jpg'',
       init_analysis =
         \<lparr> imageAnalysis = example_analysis,
           analysisResult = imageAnalysisToAnalysisResult example_analysis,
           timingMs = 4200 \<rparr> \<rparr>"

section \<open>Properties of the mapper\<close>

lemma map_index_from_Nil_iff: "map_index_from i f as = [] \<longleftrightarrow> as = []"
  by (cases as) simp_all

lemma map_index_Nil_iff: "map_index f as = [] \<longleftrightarrow> as = []"
  by (simp add: map_index_def map_index_from_Nil_iff)

lemma elements_of_result:
  "elements (imageAnalysisToAnalysisResult a) =
     (if subjects a = [] \<and> keyElements (background a) = []
      then [\<lparr> label = ''scene'', importance = 1, category = SubjectCategory,
               element_description = background_description (background a) \<rparr>]
      else map_index subjectElement (subjects a) @
           map_index (backgroundElement (length (subjects a))) (keyElements (background a)))"
  by (simp add: imageAnalysisToAnalysisResult_def Let_def map_index_Nil_iff)

lemma faceRegions_of_result:
  "faceRegions (imageAnalysisToAnalysisResult a) =
     map subjectFaceRegion (filter (isFaceSubject (photoType a)) (subjects a))"
  by (simp add: imageAnalysisToAnalysisResult_def Let_def)

text \<open>
  C1. \<open>imageAnalysisToAnalysisResult\<close> is a total function of its input (the model
  uses no operation that can fail), and the \<open>elements\<close> of its result are never empty:
  when the analysis has neither subjects nor background key elements, they are exactly
  the one fallback element with label "scene", importance 1, category subject and the
  background's description.
\<close>

theorem normalizer_elements_nonempty:
  "1 \<le> length (elements (imageAnalysisToAnalysisResult a)) \<and>
   (subjects a = [] \<and> keyElements (background a) = [] \<longrightarrow>
      elements (imageAnalysisToAnalysisResult a) =
        [\<lparr> label = ''scene'', importance = 1, category = SubjectCategory,
           element_description = background_description (background a) \<rparr>])"
  by (simp add: elements_of_result Suc_le_eq map_index_Nil_iff)

text \<open>C1 at an analysis of a plain wall, with no subject and no key element.\<close>

theorem normalizer_elements_nonempty_witness:
  "subjects \<lparr> photoType = Other, subjects = [],
       background = \<lparr> background_description = ''a plain wall'',
                      background_complexity = 1, keyElements = [] \<rparr>,
       preservationPriorities = [], simplificationTargets = [] \<rparr> = [] \<and>
   elements (imageAnalysisToAnalysisResult
     \<lparr> photoType = Other, subjects = [],
       background = \<lparr> background_description = ''a plain wall'',
                      background_complexity = 1, keyElements = [] \<rparr>,
       preservationPriorities = [], simplificationTargets = [] \<rparr>) =
     [\<lparr> label = ''scene'', importance = 1, category = SubjectCategory,
        element_description = ''a plain wall'' \<rparr>]"
  using normalizer_elements_nonempty
    [of "\<lparr> photoType = Other, subjects = [],
           background = \<lparr> background_description = ''a plain wall'',
                          background_complexity = 1, keyElements = [] \<rparr>,
           preservationPriorities = [], simplificationTargets = [] \<rparr>"]
  by simp

lemma bboxToPosition_buckets:
  "bboxToPosition b =
     spec_combineBuckets (spec_verticalBucket (bbox_y b)) (spec_horizontalBucket (bbox_x b))"
  by (simp add: bboxToPosition_def spec_verticalBucket_def spec_horizontalBucket_def Let_def)

lemma bboxToPosition_range:
  "bboxToPosition b \<in> set (spec_declaredPositions @ [''top'', ''bottom''])"
  by (simp add: bboxToPosition_def spec_declaredPositions_def Let_def)

text \<open>
  C5, as stated, fails: a woman whose bounding box has its top-left corner at
  (0.4, 0.1) and is 0.2 wide and 0.8 high gets the position "top", which is none of the
  seven declared position strings, and which is not the position of the centre
  (0.5, 0.5) of her bounding box, "center".
\<close>

theorem faceRegion_position_counterexample:
  "map position (faceRegions (imageAnalysisToAnalysisResult
      \<lparr> photoType = Other,
        subjects = [\<lparr> subject_description = ''a woman in a red hat'',
                      boundingBox = \<lparr> bbox_x = 4 / 10, bbox_y = 1 / 10,
                                      bbox_width = 2 / 10, bbox_height = 8 / 10 \<rparr>,
                      distinctiveFeatures = [''red hat''] \<rparr>],
        background = \<lparr> background_description = ''a park'',
                       background_complexity = 3, keyElements = [] \<rparr>,
        preservationPriorities = [], simplificationTargets = [] \<rparr>)) = [''top''] \<and>
   ''top'' \<notin> set spec_declaredPositions \<and>
   spec_centerPosition \<lparr> bbox_x = 4 / 10, bbox_y = 1 / 10,
                         bbox_width = 2 / 10, bbox_height = 8 / 10 \<rparr> = ''center''"
  by (simp add: faceRegions_of_result isFaceSubject_def toLowerCase_def toLowerCase_char_def
      subjectFaceRegion_def bboxToPosition_def spec_declaredPositions_def
      spec_centerPosition_def spec_verticalBucket_def spec_horizontalBucket_def)

text \<open>
  C5, amended. Every face region of the result comes from a subject that passes the
  inclusion filter, and its position string is derived from the \<open>x\<close> and \<open>y\<close> fields of
  that subject's bounding box (its top-left corner; width and height are not read): the
  horizontal bucket is left if x < 0.33, right if x > 0.66, else none; the vertical
  bucket is top if y < 0.33, bottom if y > 0.66, else none; they are combined as
  "vertical-horizontal" when both are set, otherwise whichever one is set, otherwise
  "center". The result is always one of nine strings: the seven declared position
  strings, "top" and "bottom".
\<close>

theorem faceRegion_position_from_corner:
  "\<forall>f \<in> set (faceRegions (imageAnalysisToAnalysisResult a)).
     (\<exists>s \<in> set (subjects a).
        isFaceSubject (photoType a) s \<and>
        face_description f = subject_description s \<and>
        position f =
          spec_combineBuckets (spec_verticalBucket (bbox_y (boundingBox s)))
            (spec_horizontalBucket (bbox_x (boundingBox s)))) \<and>
     position f \<in> set (spec_declaredPositions @ [''top'', ''bottom''])"
proof
  fix f
  assume "f \<in> set (faceRegions (imageAnalysisToAnalysisResult a))"
  then obtain s where s: "s \<in> set (subjects a)" "isFaceSubject (photoType a) s"
    and f: "f = subjectFaceRegion s"
    by (auto simp add: faceRegions_of_result)
  have "position f = bboxToPosition (boundingBox s)"
    and "face_description f = subject_description s"
    by (simp_all add: f subjectFaceRegion_def)
  then show "(\<exists>s \<in> set (subjects a).
        isFaceSubject (photoType a) s \<and>
        face_description f = subject_description s \<and>
        position f =
          spec_combineBuckets (spec_verticalBucket (bbox_y (boundingBox s)))
            (spec_horizontalBucket (bbox_x (boundingBox s)))) \<and>
     position f \<in> set (spec_declaredPositions @ [''top'', ''bottom''])"
    using s bboxToPosition_buckets [of "boundingBox s"] bboxToPosition_range [of "boundingBox s"]
    by auto
qed

text \<open>
  C5, amended, at a group photo of two people: one in the top-left third, one in the
  middle of the bottom third.
\<close>

theorem faceRegion_position_from_corner_witness:
  "map position (faceRegions (imageAnalysisToAnalysisResult
      \<lparr> photoType = Group,
        subjects = [\<lparr> subject_description = ''tall person'',
                      boundingBox = \<lparr> bbox_x = 1 / 10, bbox_y = 2 / 10,
                                      bbox_width = 3 / 10, bbox_height = 5 / 10 \<rparr>,
                      distinctiveFeatures = [''beard''] \<rparr>,
                    \<lparr> subject_description = ''small person'',
                      boundingBox = \<lparr> bbox_x = 5 / 10, bbox_y = 7 / 10,
                                      bbox_width = 2 / 10, bbox_height = 3 / 10 \<rparr>,
                      distinctiveFeatures = [''pigtails''] \<rparr>],
        background = \<lparr> background_description = ''a beach'',
                       background_complexity = 4, keyElements = [''pier''] \<rparr>,
        preservationPriorities = [], simplificationTargets = [] \<rparr>)) =
     [''top-left'', ''bottom''] \<and>
   ''top-left'' \<in> set (spec_declaredPositions @ [''top'', ''bottom'']) \<and>
   ''bottom'' \<in> set (spec_declaredPositions @ [''top'', ''bottom''])"
  using faceRegion_position_from_corner
    [of "\<lparr> photoType = Group,
        subjects = [\<lparr> subject_description = ''tall person'',
                      boundingBox = \<lparr> bbox_x = 1 / 10, bbox_y = 2 / 10,
                                      bbox_width = 3 / 10, bbox_height = 5 / 10 \<rparr>,
                      distinctiveFeatures = [''beard''] \<rparr>,
                    \<lparr> subject_description = ''small person'',
                      boundingBox = \<lparr> bbox_x = 5 / 10, bbox_y = 7 / 10,
                                      bbox_width = 2 / 10, bbox_height = 3 / 10 \<rparr>,
                      distinctiveFeatures = [''pigtails''] \<rparr>],
        background = \<lparr> background_description = ''a beach'',
                       background_complexity = 4, keyElements = [''pier''] \<rparr>,
        preservationPriorities = [], simplificationTargets = [] \<rparr>"]
  by (simp add: faceRegions_of_result isFaceSubject_def subjectFaceRegion_def
      spec_declaredPositions_def spec_verticalBucket_def spec_horizontalBucket_def)

text \<open>
  C6. \<open>deriveBackgroundStrategy\<close> depends on the photo type and the complexity score
  only, and its rules apply in priority order, the first match winning: landmark gives
  preserve-detail; otherwise landscape gives preserve-structure; otherwise the
  complexity decides: at most 2 remove, at most 5 simplify, at most 8
  preserve-structure, above 8 preserve-detail. The strategy of the mapper's result is
  that function of the analysis's photo type and background complexity, so two analyses
  that agree on both get the same strategy. The six values the specification lists are
  as it says; the landscape rule overrides the numeric rule.
\<close>

theorem deriveBackgroundStrategy_priority:
  "(pt = ''landmark'' \<longrightarrow> deriveBackgroundStrategy c pt = PreserveDetail) \<and>
   (pt \<noteq> ''landmark'' \<and> pt = ''landscape'' \<longrightarrow>
      deriveBackgroundStrategy c pt = PreserveStructure) \<and>
   (pt \<noteq> ''landmark'' \<and> pt \<noteq> ''landscape'' \<and> c \<le> 2 \<longrightarrow>
      deriveBackgroundStrategy c pt = Remove) \<and>
   (pt \<noteq> ''landmark'' \<and> pt \<noteq> ''landscape'' \<and> 2 < c \<and> c \<le> 5 \<longrightarrow>
      deriveBackgroundStrategy c pt = Simplify) \<and>
   (pt \<noteq> ''landmark'' \<and> pt \<noteq> ''landscape'' \<and> 5 < c \<and> c \<le> 8 \<longrightarrow>
      deriveBackgroundStrategy c pt = PreserveStructure) \<and>
   (pt \<noteq> ''landmark'' \<and> pt \<noteq> ''landscape'' \<and> 8 < c \<longrightarrow>
      deriveBackgroundStrategy c pt = PreserveDetail) \<and>
   backgroundStrategy (imageAnalysisToAnalysisResult a) =
     deriveBackgroundStrategy (background_complexity (background a))
       (photoTypeString (photoType a)) \<and>
   (photoType a = photoType a' \<and>
    background_complexity (background a) = background_complexity (background a') \<longrightarrow>
      backgroundStrategy (imageAnalysisToAnalysisResult a) =
      backgroundStrategy (imageAnalysisToAnalysisResult a')) \<and>
   deriveBackgroundStrategy 1 ''landmark'' = PreserveDetail \<and>
   deriveBackgroundStrategy 2 ''other'' = Remove \<and>
   deriveBackgroundStrategy 5 ''other'' = Simplify \<and>
   deriveBackgroundStrategy 8 ''other'' = PreserveStructure \<and>
   deriveBackgroundStrategy 10 ''other'' = PreserveDetail \<and>
   deriveBackgroundStrategy 1 ''landscape'' = PreserveStructure"
proof -
  have mapper: "backgroundStrategy (imageAnalysisToAnalysisResult b) =
      deriveBackgroundStrategy (background_complexity (background b))
        (photoTypeString (photoType b))" for b
    by (simp add: imageAnalysisToAnalysisResult_def Let_def)
  have rules: "(pt = ''landmark'' \<longrightarrow> deriveBackgroundStrategy c pt = PreserveDetail) \<and>
   (pt \<noteq> ''landmark'' \<and> pt = ''landscape'' \<longrightarrow>
      deriveBackgroundStrategy c pt = PreserveStructure) \<and>
   (pt \<noteq> ''landmark'' \<and> pt \<noteq> ''landscape'' \<and> c \<le> 2 \<longrightarrow>
      deriveBackgroundStrategy c pt = Remove) \<and>
   (pt \<noteq> ''landmark'' \<and> pt \<noteq> ''landscape'' \<and> 2 < c \<and> c \<le> 5 \<longrightarrow>
      deriveBackgroundStrategy c pt = Simplify) \<and>
   (pt \<noteq> ''landmark'' \<and> pt \<noteq> ''landscape'' \<and> 5 < c \<and> c \<le> 8 \<longrightarrow>
      deriveBackgroundStrategy c pt = PreserveStructure) \<and>
   (pt \<noteq> ''landmark'' \<and> pt \<noteq> ''landscape'' \<and> 8 < c \<longrightarrow>
      deriveBackgroundStrategy c pt = PreserveDetail)"
    by (auto simp add: deriveBackgroundStrategy_def)
  have examples: "deriveBackgroundStrategy 1 ''landmark'' = PreserveDetail \<and>
   deriveBackgroundStrategy 2 ''other'' = Remove \<and>
   deriveBackgroundStrategy 5 ''other'' = Simplify \<and>
   deriveBackgroundStrategy 8 ''other'' = PreserveStructure \<and>
   deriveBackgroundStrategy 10 ''other'' = PreserveDetail \<and>
   deriveBackgroundStrategy 1 ''landscape'' = PreserveStructure"
    by (simp add: deriveBackgroundStrategy_def)
  show ?thesis
    using rules examples mapper [of a] mapper [of a'] by simp
qed

text \<open>
  C6 at one photo type and complexity for each rule: a landmark of complexity 1, a
  landscape of complexity 1 (the landscape rule wins over "at most 2"), a group photo
  of complexity 2, a pet photo of complexity 4, a portrait of complexity 7 and another
  photo of complexity 9; and at two landscapes of complexity 1, which get the same
  strategy.
\<close>

theorem deriveBackgroundStrategy_priority_witness:
  "deriveBackgroundStrategy 1 ''landmark'' = PreserveDetail \<and>
   deriveBackgroundStrategy 1 ''landscape'' = PreserveStructure \<and>
   deriveBackgroundStrategy 2 ''group'' = Remove \<and>
   deriveBackgroundStrategy 4 ''pet'' = Simplify \<and>
   deriveBackgroundStrategy 7 ''portrait'' = PreserveStructure \<and>
   deriveBackgroundStrategy 9 ''other'' = PreserveDetail \<and>
   backgroundStrategy (imageAnalysisToAnalysisResult
     \<lparr> photoType = Landscape, subjects = [],
       background = \<lparr> background_description = ''rolling hills'',
                      background_complexity = 1, keyElements = [''hill''] \<rparr>,
       preservationPriorities = [], simplificationTargets = [] \<rparr>) = PreserveStructure \<and>
   backgroundStrategy (imageAnalysisToAnalysisResult
     \<lparr> photoType = Landscape, subjects = [],
       background = \<lparr> background_description = ''rolling hills'',
                      background_complexity = 1, keyElements = [''hill''] \<rparr>,
       preservationPriorities = [], simplificationTargets = [] \<rparr>) =
   backgroundStrategy (imageAnalysisToAnalysisResult
     \<lparr> photoType = Landscape, subjects = [],
       background = \<lparr> background_description = ''a lake'',
                      background_complexity = 1, keyElements = [] \<rparr>,
       preservationPriorities = [], simplificationTargets = [] \<rparr>)"
  using deriveBackgroundStrategy_priority [of "''landscape''" 1
      "\<lparr> photoType = Landscape, subjects = [],
         background = \<lparr> background_description = ''rolling hills'',
                        background_complexity = 1, keyElements = [''hill''] \<rparr>,
         preservationPriorities = [], simplificationTargets = [] \<rparr>"
      "\<lparr> photoType = Landscape, subjects = [],
         background = \<lparr> background_description = ''a lake'',
                        background_complexity = 1, keyElements = [] \<rparr>,
         preservationPriorities = [], simplificationTargets = [] \<rparr>"]
    deriveBackgroundStrategy_priority [of "''landmark''" 1]
    deriveBackgroundStrategy_priority [of "''group''" 2]
    deriveBackgroundStrategy_priority [of "''pet''" 4]
    deriveBackgroundStrategy_priority [of "''portrait''" 7]
    deriveBackgroundStrategy_priority [of "''other''" 9]
  by simp

text \<open>
  C10. Every face region of the mapper's result has at least one distinguishing
  feature; the face regions are, in the same relative order, the face regions of some
  of the subjects; and there are at most as many of them as subjects.
\<close>

theorem faceRegions_from_subjects:
  "(\<forall>f \<in> set (faceRegions (imageAnalysisToAnalysisResult a)). distinguishingFeatures f \<noteq> []) \<and>
   subseq (faceRegions (imageAnalysisToAnalysisResult a)) (map subjectFaceRegion (subjects a)) \<and>
   length (faceRegions (imageAnalysisToAnalysisResult a)) \<le> length (subjects a)"
proof (intro conjI)
  show "\<forall>f \<in> set (faceRegions (imageAnalysisToAnalysisResult a)). distinguishingFeatures f \<noteq> []"
    by (auto simp add: faceRegions_of_result isFaceSubject_def subjectFaceRegion_def)
  show "subseq (faceRegions (imageAnalysisToAnalysisResult a)) (map subjectFaceRegion (subjects a))"
    by (simp add: faceRegions_of_result subseq_map)
  show "length (faceRegions (imageAnalysisToAnalysisResult a)) \<le> length (subjects a)"
    by (simp add: faceRegions_of_result)
qed

text \<open>
  C10 at a photo of a girl, a dog and a boy: the dog is no person, the boy has no
  distinctive feature, and the girl is the one face region.
\<close>

theorem faceRegions_from_subjects_witness:
  "map face_description (faceRegions (imageAnalysisToAnalysisResult
      \<lparr> photoType = Other,
        subjects = [\<lparr> subject_description = ''Girl with braids'',
                      boundingBox = \<lparr> bbox_x = 1 / 10, bbox_y = 4 / 10,
                                      bbox_width = 2 / 10, bbox_height = 5 / 10 \<rparr>,
                      distinctiveFeatures = [''braids'', ''freckles''] \<rparr>,
                    \<lparr> subject_description = ''spotted dog'',
                      boundingBox = \<lparr> bbox_x = 4 / 10, bbox_y = 6 / 10,
                                      bbox_width = 2 / 10, bbox_height = 3 / 10 \<rparr>,
                      distinctiveFeatures = [''red collar''] \<rparr>,
                    \<lparr> subject_description = ''a boy'',
                      boundingBox = \<lparr> bbox_x = 7 / 10, bbox_y = 4 / 10,
                                      bbox_width = 2 / 10, bbox_height = 5 / 10 \<rparr>,
                      distinctiveFeatures = [] \<rparr>],
        background = \<lparr> background_description = ''a garden'',
                       background_complexity = 6, keyElements = [''fence''] \<rparr>,
        preservationPriorities = [], simplificationTargets = [] \<rparr>)) =
     [''Girl with braids''] \<and>
   (\<exists>f. f \<in> set (faceRegions (imageAnalysisToAnalysisResult
      \<lparr> photoType = Other,
        subjects = [\<lparr> subject_description = ''Girl with braids'',
                      boundingBox = \<lparr> bbox_x = 1 / 10, bbox_y = 4 / 10,
                                      bbox_width = 2 / 10, bbox_height = 5 / 10 \<rparr>,
                      distinctiveFeatures = [''braids'', ''freckles''] \<rparr>,
                    \<lparr> subject_description = ''spotted dog'',
                      boundingBox = \<lparr> bbox_x = 4 / 10, bbox_y = 6 / 10,
                                      bbox_width = 2 / 10, bbox_height = 3 / 10 \<rparr>,
                      distinctiveFeatures = [''red collar''] \<rparr>,
                    \<lparr> subject_description = ''a boy'',
                      boundingBox = \<lparr> bbox_x = 7 / 10, bbox_y = 4 / 10,
                                      bbox_width = 2 / 10, bbox_height = 5 / 10 \<rparr>,
                      distinctiveFeatures = [] \<rparr>],
        background = \<lparr> background_description = ''a garden'',
                       background_complexity = 6, keyElements = [''fence''] \<rparr>,
        preservationPriorities = [], simplificationTargets = [] \<rparr>)) \<and>
      distinguishingFeatures f \<noteq> [])"
proof -
  define a0 where "a0 =
      \<lparr> photoType = Other,
        subjects = [\<lparr> subject_description = ''Girl with braids'',
                      boundingBox = \<lparr> bbox_x = 1 / 10, bbox_y = 4 / 10,
                                      bbox_width = 2 / 10, bbox_height = 5 / 10 \<rparr>,
                      distinctiveFeatures = [''braids'', ''freckles''] \<rparr>,
                    \<lparr> subject_description = ''spotted dog'',
                      boundingBox = \<lparr> bbox_x = 4 / 10, bbox_y = 6 / 10,
                                      bbox_width = 2 / 10, bbox_height = 3 / 10 \<rparr>,
                      distinctiveFeatures = [''red collar''] \<rparr>,
                    \<lparr> subject_description = ''a boy'',
                      boundingBox = \<lparr> bbox_x = 7 / 10, bbox_y = 4 / 10,
                                      bbox_width = 2 / 10, bbox_height = 5 / 10 \<rparr>,
                      distinctiveFeatures = [] \<rparr>],
        background = \<lparr> background_description = ''a garden'',
                       background_complexity = 6, keyElements = [''fence''] \<rparr>,
        preservationPriorities = [], simplificationTargets = [] \<rparr>"
  have faces: "map face_description (faceRegions (imageAnalysisToAnalysisResult a0)) =
      [''Girl with braids'']"
    by (simp add: a0_def faceRegions_of_result isFaceSubject_def subjectFaceRegion_def
        toLowerCase_def toLowerCase_char_def)
  then obtain f where f: "f \<in> set (faceRegions (imageAnalysisToAnalysisResult a0))"
    by (cases "faceRegions (imageAnalysisToAnalysisResult a0)") auto
  with faceRegions_from_subjects [of a0] have "distinguishingFeatures f \<noteq> []"
    by blast
  with f faces show ?thesis
    unfolding a0_def by blast
qed

section \<open>Properties of prompt composition\<close>

lemma NEGATIVE_PROMPT_value:
  "NEGATIVE_PROMPT = ''color, shading, gradient, gray, grey, shadow, photograph, photorealistic, 3d render, watermark, text, signature, blurry, low quality, filled areas, solid black regions, halftone, crosshatch, noise, grain''"
  by (simp add: NEGATIVE_PROMPT_def NEGATIVE_PROMPT_TERMS_def)

text \<open>
  C8. For every prompt variant, every complexity level and every analysis result,
  present or absent, \<open>buildEditPrompt\<close> returns the positive prompt of the variant's
  builder (the \<open>prompt\<close> that \<open>buildGenerationPrompt\<close> returns for the same arguments),
  then a space, then the literal "MUST NOT include: ", the negative prompt and a full
  stop; so its result ends with that suffix. The negative prompt is the constant
  \<open>NEGATIVE_PROMPT\<close>, the twenty fixed terms joined by ", ".
\<close>

theorem buildEditPrompt_suffix:
  "buildEditPrompt variant level ar =
     VARIANT_BUILDERS variant level ar @ '' '' @
       (''MUST NOT include: '' @ NEGATIVE_PROMPT @ ''.'') \<and>
   prompt (buildGenerationPrompt variant level ar) = VARIANT_BUILDERS variant level ar \<and>
   negativePrompt (buildGenerationPrompt variant level ar) = NEGATIVE_PROMPT \<and>
   suffix (''MUST NOT include: '' @ NEGATIVE_PROMPT @ ''.'') (buildEditPrompt variant level ar) \<and>
   NEGATIVE_PROMPT = join '', '' NEGATIVE_PROMPT_TERMS \<and>
   length NEGATIVE_PROMPT_TERMS = 20 \<and>
   NEGATIVE_PROMPT = ''color, shading, gradient, gray, grey, shadow, photograph, photorealistic, 3d render, watermark, text, signature, blurry, low quality, filled areas, solid black regions, halftone, crosshatch, noise, grain''"
proof -
  have shape: "buildEditPrompt variant level ar =
     VARIANT_BUILDERS variant level ar @ '' '' @
       (''MUST NOT include: '' @ NEGATIVE_PROMPT @ ''.'')"
    by (simp add: buildEditPrompt_def Let_def)
  have "suffix (''MUST NOT include: '' @ NEGATIVE_PROMPT @ ''.'') (buildEditPrompt variant level ar)"
    unfolding shape suffix_def by (metis append.assoc)
  moreover have "length NEGATIVE_PROMPT_TERMS = 20"
    by (simp add: NEGATIVE_PROMPT_TERMS_def)
  moreover have "prompt (buildGenerationPrompt variant level ar) = VARIANT_BUILDERS variant level ar"
    and "negativePrompt (buildGenerationPrompt variant level ar) = NEGATIVE_PROMPT"
    by (simp_all add: buildGenerationPrompt_def Let_def)
  ultimately show ?thesis
    using shape NEGATIVE_PROMPT_value by (simp add: NEGATIVE_PROMPT_def)
qed

text \<open>
  C9. \<open>getInferenceConfig\<close> is a lookup over the four complexity levels. Along the
  order toddler, child, tween, adult the number of inference steps strictly increases,
  from 20 at toddler to 35 at adult, and the guidance scale never increases, from 8.0 at
  toddler to 7.0 at adult.
\<close>

theorem getInferenceConfig_monotone:
  "(levelRank a < levelRank b \<longrightarrow>
      numInferenceSteps (getInferenceConfig a) < numInferenceSteps (getInferenceConfig b) \<and>
      guidanceScale (getInferenceConfig b) \<le> guidanceScale (getInferenceConfig a)) \<and>
   numInferenceSteps (getInferenceConfig Toddler) = 20 \<and>
   numInferenceSteps (getInferenceConfig Adult) = 35 \<and>
   guidanceScale (getInferenceConfig Toddler) = 8 \<and>
   guidanceScale (getInferenceConfig Adult) = 7"
  by (cases a; cases b; simp)

text \<open>
  C9 at child and tween: the steps go from 25 to 30 and the guidance scale stays at
  7.5.
\<close>

theorem getInferenceConfig_monotone_witness:
  "levelRank Child < levelRank Tween \<and>
   numInferenceSteps (getInferenceConfig Child) < numInferenceSteps (getInferenceConfig Tween) \<and>
   guidanceScale (getInferenceConfig Tween) \<le> guidanceScale (getInferenceConfig Child) \<and>
   numInferenceSteps (getInferenceConfig Child) = 25 \<and>
   guidanceScale (getInferenceConfig Tween) = 75 / 10"
  using getInferenceConfig_monotone [of Child Tween] by simp

section \<open>Properties of the output file name\<close>

lemma replace_prefix_append: "replace_prefix p (p @ s) = s"
  by (simp add: replace_prefix_def)

lemma replace_suffix_append: "replace_suffix q (s @ q) = s"
  by (simp add: replace_suffix_def suffix_def)

lemma replace_non_slug_ok: "set (replace_non_slug s) \<subseteq> set ''abcdefghijklmnopqrstuvwxyz0123456789-''"
  unfolding replace_non_slug_def slug_char_ok_def by (induction s) auto

text \<open>
  C4, as stated, fails: the model identifier "registry/model-name/edit" keeps its
  namespace, and the file name is "child--direct-transform--registry-model-name.png".
\<close>

theorem buildOutputFileName_registry_counterexample:
  "buildOutputFileName ''child'' ''direct-transform'' ''registry/model-name/edit'' =
     ''child--direct-transform--registry-model-name.png'' \<and>
   buildOutputFileName ''child'' ''direct-transform'' ''registry/model-name/edit'' \<noteq>
     ''child--direct-transform--model-name.png''"
  by (simp add: buildOutputFileName_def replace_prefix_def replace_suffix_def
      replace_non_slug_def slug_char_ok_def suffix_def)

text \<open>
  C4, amended. \<open>buildOutputFileName(complexity, variant, model)\<close> returns
  "complexity--variant--slug.png", where the slug is the model identifier without the
  literal prefix "fal-ai/" if it starts with it, then without the suffix "/edit" if
  it ends with it, and then with every character outside \<open>[a-z0-9-]\<close> replaced by "-";
  any other namespace prefix stays in the slug, its "/" replaced. In particular
  \<open>buildOutputFileName("child", "direct-transform", "fal-ai/model-name/edit")\<close> is
  "child--direct-transform--model-name.png".
\<close>

theorem buildOutputFileName_format:
  "buildOutputFileName c v (''fal-ai/'' @ core @ ''/edit'') =
     c @ ''--'' @ v @ ''--'' @ replace_non_slug core @ ''.png'' \<and>
   (\<not> prefix ''fal-ai/'' (core @ ''/edit'') \<longrightarrow>
      buildOutputFileName c v (core @ ''/edit'') =
        c @ ''--'' @ v @ ''--'' @ replace_non_slug core @ ''.png'') \<and>
   (\<not> suffix ''/edit'' core \<longrightarrow>
      buildOutputFileName c v (''fal-ai/'' @ core) =
        c @ ''--'' @ v @ ''--'' @ replace_non_slug core @ ''.png'') \<and>
   (\<not> prefix ''fal-ai/'' model \<and> \<not> suffix ''/edit'' model \<longrightarrow>
      buildOutputFileName c v model =
        c @ ''--'' @ v @ ''--'' @ replace_non_slug model @ ''.png'') \<and>
   length (replace_non_slug s) = length s \<and>
   (\<forall>i < length s.
      replace_non_slug s ! i =
        (if s ! i \<in> set ''abcdefghijklmnopqrstuvwxyz0123456789-'' then s ! i else CHR ''-'')) \<and>
   (\<exists>slug. buildOutputFileName c v model = c @ ''--'' @ v @ ''--'' @ slug @ ''.png'' \<and>
      set slug \<subseteq> set ''abcdefghijklmnopqrstuvwxyz0123456789-'') \<and>
   buildOutputFileName ''child'' ''direct-transform'' ''fal-ai/model-name/edit'' =
     ''child--direct-transform--model-name.png''"
proof (intro conjI)
  show "buildOutputFileName c v (''fal-ai/'' @ core @ ''/edit'') =
     c @ ''--'' @ v @ ''--'' @ replace_non_slug core @ ''.png''"
    unfolding buildOutputFileName_def Let_def
    by (simp only: replace_prefix_append replace_suffix_append)
  show "\<not> prefix ''fal-ai/'' (core @ ''/edit'') \<longrightarrow>
      buildOutputFileName c v (core @ ''/edit'') =
        c @ ''--'' @ v @ ''--'' @ replace_non_slug core @ ''.png''"
    unfolding buildOutputFileName_def Let_def
    by (simp add: replace_prefix_def replace_suffix_append)
  show "\<not> suffix ''/edit'' core \<longrightarrow>
      buildOutputFileName c v (''fal-ai/'' @ core) =
        c @ ''--'' @ v @ ''--'' @ replace_non_slug core @ ''.png''"
    unfolding buildOutputFileName_def Let_def
    by (simp only: replace_prefix_append) (simp add: replace_suffix_def)
  show "\<not> prefix ''fal-ai/'' model \<and> \<not> suffix ''/edit'' model \<longrightarrow>
      buildOutputFileName c v model =
        c @ ''--'' @ v @ ''--'' @ replace_non_slug model @ ''.png''"
    unfolding buildOutputFileName_def Let_def
    by (simp add: replace_prefix_def replace_suffix_def)
  show "length (replace_non_slug s) = length s"
    by (simp add: replace_non_slug_def)
  show "\<forall>i < length s.
      replace_non_slug s ! i =
        (if s ! i \<in> set ''abcdefghijklmnopqrstuvwxyz0123456789-'' then s ! i else CHR ''-'')"
    by (simp add: replace_non_slug_def slug_char_ok_def)
  show "\<exists>slug. buildOutputFileName c v model = c @ ''--'' @ v @ ''--'' @ slug @ ''.png'' \<and>
      set slug \<subseteq> set ''abcdefghijklmnopqrstuvwxyz0123456789-''"
    unfolding buildOutputFileName_def Let_def
    using replace_non_slug_ok by blast
  show "buildOutputFileName ''child'' ''direct-transform'' ''fal-ai/model-name/edit'' =
     ''child--direct-transform--model-name.png''"
    by (simp add: buildOutputFileName_def replace_prefix_def replace_suffix_def
        replace_non_slug_def slug_char_ok_def suffix_def)
qed

text \<open>
  C4, amended, at the model identifiers "fal-ai/gpt-image-1.5/edit" (both affixes
  removed, the dot replaced), "registry/model-name/edit" (the namespace kept),
  "fal-ai/fast-sdxl" (no suffix to remove) and "Model_X" (nothing removed).
\<close>

theorem buildOutputFileName_format_witness:
  "buildOutputFileName ''adult'' ''preservation-heavy'' ''fal-ai/gpt-image-1.5/edit'' =
     ''adult--preservation-heavy--gpt-image-1-5.png'' \<and>
   \<not> prefix ''fal-ai/'' ''registry/model-name/edit'' \<and>
   buildOutputFileName ''adult'' ''preservation-heavy'' ''registry/model-name/edit'' =
     ''adult--preservation-heavy--registry-model-name.png'' \<and>
   \<not> suffix ''/edit'' ''fast-sdxl'' \<and>
   buildOutputFileName ''adult'' ''preservation-heavy'' ''fal-ai/fast-sdxl'' =
     ''adult--preservation-heavy--fast-sdxl.png'' \<and>
   \<not> prefix ''fal-ai/'' ''Model_X'' \<and> \<not> suffix ''/edit'' ''Model_X'' \<and>
   buildOutputFileName ''adult'' ''preservation-heavy'' ''Model_X'' =
     ''adult--preservation-heavy---odel--.png'' \<and>
   length (replace_non_slug ''Model_X'') = 7 \<and>
   replace_non_slug ''Model_X'' ! 0 = CHR ''-'' \<and>
   replace_non_slug ''Model_X'' ! 1 = CHR ''o''"
  using buildOutputFileName_format
      [of "''adult''" "''preservation-heavy''" "''gpt-image-1.5''" "''Model_X''" "''Model_X''"]
    buildOutputFileName_format
      [of "''adult''" "''preservation-heavy''" "''registry/model-name''" "''Model_X''" "''Model_X''"]
    buildOutputFileName_format
      [of "''adult''" "''preservation-heavy''" "''fast-sdxl''" "''Model_X''" "''Model_X''"]
  by (simp add: replace_non_slug_def slug_char_ok_def suffix_def)


section \<open>Properties of the batch run\<close>

lemma fold_concat: "fold f (concat xss) = fold (fold f) xss"
  by (induction xss) simp_all

lemma generateAll_fold:
  "generateAll sv init models levels variants l =
     fold (\<lambda>(m, c, v). runIteration sv init m c v) (spec_iterations models levels variants) l"
proof -
  have inner: "fold (\<lambda>(m, c, v). runIteration sv init m c v) (map (\<lambda>v. (m, c, v)) variants) =
      fold (\<lambda>v. runIteration sv init m c v) variants" for m c
    by (simp add: fold_map comp_def)
  have middle: "fold (\<lambda>(m, c, v). runIteration sv init m c v)
        (concat (map (\<lambda>c. map (\<lambda>v. (m, c, v)) variants) levels)) =
      fold (\<lambda>c. fold (\<lambda>v. runIteration sv init m c v) variants) levels" for m
    by (simp add: fold_concat fold_map comp_def inner)
  have outer: "fold (\<lambda>(m, c, v). runIteration sv init m c v)
        (spec_iterations models levels variants) =
      fold (\<lambda>m. fold (\<lambda>c. fold (\<lambda>v. runIteration sv init m c v) variants) levels) models"
    by (simp add: spec_iterations_def fold_concat fold_map comp_def middle)
  show ?thesis
    by (simp only: generateAll_def outer)
qed

lemma runIteration_allResults:
  "allResults (runIteration sv init m c v l) =
     allResults l @ [spec_recorded sv init (length (loop_calls l), m, c, v)]"
  by (simp add: runIteration_def spec_recorded_def Let_def split: ActionResult.splits)

lemma runIteration_calls:
  "loop_calls (runIteration sv init m c v l) = loop_calls l @ [iterationParams init m c v]"
  by (simp add: runIteration_def Let_def)

lemma runIteration_state:
  "st_results (loop_state (runIteration sv init m c v l)) =
     allResults (runIteration sv init m c v l) \<and>
   st_completedCount (loop_state (runIteration sv init m c v l)) =
     length (allResults (runIteration sv init m c v l)) \<and>
   st_errors (loop_state (runIteration sv init m c v l)) =
     allErrors (runIteration sv init m c v l)"
  by (simp add: runIteration_def Let_def)

lemma runIteration_frame:
  "st_file (loop_state (runIteration sv init m c v l)) = st_file (loop_state l) \<and>
   st_phase (loop_state (runIteration sv init m c v l)) = st_phase (loop_state l) \<and>
   st_batchId (loop_state (runIteration sv init m c v l)) = st_batchId (loop_state l) \<and>
   st_inputFileName (loop_state (runIteration sv init m c v l)) = st_inputFileName (loop_state l) \<and>
   st_analysis (loop_state (runIteration sv init m c v l)) = st_analysis (loop_state l) \<and>
   st_error (loop_state (runIteration sv init m c v l)) = st_error (loop_state l) \<and>
   st_ratings (loop_state (runIteration sv init m c v l)) = st_ratings (loop_state l) \<and>
   st_saved (loop_state (runIteration sv init m c v l)) = st_saved (loop_state l)"
  by (simp add: runIteration_def Let_def)

lemma fold_runIteration_calls:
  "loop_calls (fold (\<lambda>(m, c, v). runIteration sv init m c v) its l) =
     loop_calls l @ map (\<lambda>(m, c, v). iterationParams init m c v) its"
  by (induction its arbitrary: l) (auto simp add: runIteration_calls)

lemma fold_runIteration_allResults:
  "allResults (fold (\<lambda>(m, c, v). runIteration sv init m c v) its l) =
     allResults l @ map (spec_recorded sv init) (enumerate (length (loop_calls l)) its)"
proof (induction its arbitrary: l)
  case Nil
  then show ?case by simp
next
  case (Cons it its)
  obtain m c v where it: "it = (m, c, v)"
    by (cases it) auto
  show ?case
    using Cons.IH [of "runIteration sv init m c v l"]
    by (simp add: it runIteration_allResults runIteration_calls)
qed

lemma fold_runIteration_state:
  "st_results (loop_state l) = allResults l \<and>
   st_completedCount (loop_state l) = length (allResults l) \<and>
   st_errors (loop_state l) = allErrors l \<Longrightarrow>
   st_results (loop_state (fold (\<lambda>(m, c, v). runIteration sv init m c v) its l)) =
     allResults (fold (\<lambda>(m, c, v). runIteration sv init m c v) its l) \<and>
   st_completedCount (loop_state (fold (\<lambda>(m, c, v). runIteration sv init m c v) its l)) =
     length (allResults (fold (\<lambda>(m, c, v). runIteration sv init m c v) its l)) \<and>
   st_errors (loop_state (fold (\<lambda>(m, c, v). runIteration sv init m c v) its l)) =
     allErrors (fold (\<lambda>(m, c, v). runIteration sv init m c v) its l)"
proof (induction its arbitrary: l)
  case Nil
  then show ?case by simp
next
  case (Cons it its)
  obtain m c v where it: "it = (m, c, v)"
    by (cases it) auto
  show ?case
    using Cons.IH [of "runIteration sv init m c v l"] runIteration_state [of sv init m c v l]
    by (simp add: it)
qed

lemma fold_runIteration_frame:
  "st_file (loop_state (fold (\<lambda>(m, c, v). runIteration sv init m c v) its l)) =
     st_file (loop_state l) \<and>
   st_phase (loop_state (fold (\<lambda>(m, c, v). runIteration sv init m c v) its l)) =
     st_phase (loop_state l) \<and>
   st_batchId (loop_state (fold (\<lambda>(m, c, v). runIteration sv init m c v) its l)) =
     st_batchId (loop_state l) \<and>
   st_inputFileName (loop_state (fold (\<lambda>(m, c, v). runIteration sv init m c v) its l)) =
     st_inputFileName (loop_state l) \<and>
   st_analysis (loop_state (fold (\<lambda>(m, c, v). runIteration sv init m c v) its l)) =
     st_analysis (loop_state l) \<and>
   st_error (loop_state (fold (\<lambda>(m, c, v). runIteration sv init m c v) its l)) =
     st_error (loop_state l) \<and>
   st_ratings (loop_state (fold (\<lambda>(m, c, v). runIteration sv init m c v) its l)) =
     st_ratings (loop_state l) \<and>
   st_saved (loop_state (fold (\<lambda>(m, c, v). runIteration sv init m c v) its l)) =
     st_saved (loop_state l)"
proof (induction its arbitrary: l)
  case Nil
  then show ?case by simp
next
  case (Cons it its)
  obtain m c v where it: "it = (m, c, v)"
    by (cases it) auto
  show ?case
    using Cons.IH [of "runIteration sv init m c v l"] runIteration_frame [of sv init m c v l]
    by (simp add: it)
qed

lemma length_spec_iterations:
  "length (spec_iterations models levels variants) =
     length models * length levels * length variants"
proof -
  have inner: "length (concat (map (\<lambda>c. map (\<lambda>v. (m, c, v)) variants) levels)) =
      length levels * length variants" for m :: GenerationModel
    by (induction levels) simp_all
  show ?thesis
    unfolding spec_iterations_def
    by (induction models) (simp_all add: inner add_mult_distrib)
qed


text \<open>The run when the up-front step succeeds: every iteration leaves one entry.\<close>

lemma runAll_init_success:
  assumes "st_file st = Some f" and "initBatchAction sv (Some f) = Success init"
  shows "st_phase (fst (runAll sv models levels variants st)) = PhaseDone \<and>
     st_results (fst (runAll sv models levels variants st)) =
       map (spec_recorded sv init) (enumerate 0 (spec_iterations models levels variants)) \<and>
     st_completedCount (fst (runAll sv models levels variants st)) =
       length (spec_iterations models levels variants) \<and>
     snd (runAll sv models levels variants st) =
       map (\<lambda>(m, c, v). iterationParams init m c v) (spec_iterations models levels variants) \<and>
     st_batchId (fst (runAll sv models levels variants st)) = Some (init_batchId init) \<and>
     st_inputFileName (fst (runAll sv models levels variants st)) =
       Some (init_inputFileName init) \<and>
     st_file (fst (runAll sv models levels variants st)) = Some f \<and>
     st_error (fst (runAll sv models levels variants st)) = None"
proof -
  define st2 where "st2 =
    st \<lparr> st_phase := PhaseAnalyzing, st_error := None, st_results := [], st_errors := [],
         st_completedCount := 0, st_saved := False, st_timerRunning := True,
         st_batchId := Some (init_batchId init),
         st_inputFileName := Some (init_inputFileName init),
         st_analysis := Some (init_analysis init),
         st_phase := PhaseGenerating \<rparr>"
  define l0 where "l0 =
    \<lparr> allResults = [], allErrors = [], loop_state = st2, loop_calls = [] \<rparr>"
  define l1 where "l1 =
    fold (\<lambda>(m, c, v). runIteration sv init m c v) (spec_iterations models levels variants) l0"
  have run: "runAll sv models levels variants st =
      ((loop_state l1) \<lparr> st_timerRunning := False, st_phase := PhaseDone \<rparr>, loop_calls l1)"
    using assms by (simp add: runAll_def Let_def generateAll_fold l1_def l0_def st2_def)
  have inv0: "st_results (loop_state l0) = allResults l0 \<and>
      st_completedCount (loop_state l0) = length (allResults l0) \<and>
      st_errors (loop_state l0) = allErrors l0"
    by (simp add: l0_def st2_def)
  have res: "allResults l1 =
      map (spec_recorded sv init) (enumerate 0 (spec_iterations models levels variants))"
    by (simp add: l1_def fold_runIteration_allResults l0_def)
  have calls: "loop_calls l1 =
      map (\<lambda>(m, c, v). iterationParams init m c v) (spec_iterations models levels variants)"
    by (simp add: l1_def fold_runIteration_calls l0_def)
  have state: "st_results (loop_state l1) = allResults l1 \<and>
      st_completedCount (loop_state l1) = length (allResults l1)"
    using fold_runIteration_state [OF inv0, of sv init "spec_iterations models levels variants"]
    by (simp add: l1_def)
  have frame: "st_batchId (loop_state l1) = Some (init_batchId init) \<and>
      st_inputFileName (loop_state l1) = Some (init_inputFileName init) \<and>
      st_file (loop_state l1) = Some f \<and> st_error (loop_state l1) = None"
    using fold_runIteration_frame [of sv init "spec_iterations models levels variants" l0] assms(1)
    by (simp add: l1_def l0_def st2_def)
  show ?thesis
    using res calls state frame by (simp add: run)
qed




lemma spec_recorded_key:
  "br_model (spec_recorded sv init (n, m, c, v)) = model_id m \<and>
   br_complexity (spec_recorded sv init (n, m, c, v)) = complexityLevelString c \<and>
   br_variant (spec_recorded sv init (n, m, c, v)) = promptVariantString v"
  by (simp add: spec_recorded_def successResult_def failureResult_def split: ActionResult.splits)




lemma hasError_ratings: "hasError (r \<lparr> br_ratings := x \<rparr>) = hasError r"
  by (simp add: hasError_def)

lemma initBatchAction_batchId:
  "initBatchAction sv formImage = Success init \<Longrightarrow> init_batchId init \<noteq> []"
  by (auto simp add: initBatchAction_def fail_def Let_def
      split: option.splits sum.splits list.splits)

lemma saveRun_accounting:
  assumes "st_batchId st = Some b" and "b \<noteq> []" and "st_file st = Some f"
  shows "\<exists>run. snd (saveRun sv n st) = Some run \<and>
     totalIterations run = n \<and>
     completedIterations run = length (filter (\<lambda>r. \<not> hasError r) (run_results run)) \<and>
     failedIterations run = length (filter hasError (run_results run)) \<and>
     completedIterations run + failedIterations run = length (st_results st) \<and>
     length (run_results run) = length (st_results st) \<and>
     map (\<lambda>r. (br_model r, br_complexity r, br_variant r, br_error r)) (run_results run) =
       map (\<lambda>r. (br_model r, br_complexity r, br_variant r, br_error r)) (st_results st)"
proof -
  define merged where "merged =
    map (\<lambda>r. r \<lparr> br_ratings :=
           (case st_ratings st (br_outputFileName r) of Some rt \<Rightarrow> rt | None \<Rightarrow> br_ratings r) \<rparr>)
      (st_results st)"
  define run where "run =
    \<lparr> run_id = b,
      run_timestamp = currentTimestamp sv,
      run_inputFileName = (case st_inputFileName st of Some n \<Rightarrow> n | None \<Rightarrow> file_name f),
      totalIterations = n,
      completedIterations = length (filter (\<lambda>r. \<not> hasError r) (st_results st)),
      failedIterations = length (filter (\<lambda>r. hasError r) (st_results st)),
      run_results = merged \<rparr>"
  have saved: "snd (saveRun sv n st) = Some run"
    using assms
    by (simp add: saveRun_def Let_def run_def merged_def split: ActionResult.splits)
  have failed: "length (filter hasError merged) = length (filter hasError (st_results st))"
    by (simp add: merged_def filter_map comp_def hasError_ratings)
  have completed: "length (filter (\<lambda>r. \<not> hasError r) merged) =
      length (filter (\<lambda>r. \<not> hasError r) (st_results st))"
    by (simp add: merged_def filter_map comp_def hasError_ratings)
  have total: "length (filter (\<lambda>r. \<not> hasError r) (st_results st)) +
      length (filter hasError (st_results st)) = length (st_results st)"
    using sum_length_filter_compl [of hasError "st_results st"] by simp
  have keys: "map (\<lambda>r. (br_model r, br_complexity r, br_variant r, br_error r)) merged =
      map (\<lambda>r. (br_model r, br_complexity r, br_variant r, br_error r)) (st_results st)"
    by (simp add: merged_def comp_def)
  show ?thesis
    using saved failed completed total keys by (simp add: run_def merged_def)
qed

text \<open>The list of failed iterations that the page shows: one line per failed call, in loop order.\<close>

lemma fold_runIteration_allErrors:
  "allErrors (fold (\<lambda>(m, c, v). runIteration sv init m c v) its l) =
     allErrors l @
     concat (map (\<lambda>(n, m, c, v).
        case generateIterationAction sv n (iterationParams init m c v) of
          Success d \<Rightarrow> []
        | Failure e \<Rightarrow> [complexityLevelString c @ '' / '' @ promptVariantString v @ '' / '' @
                         model_label m @ '': '' @ e])
       (enumerate (length (loop_calls l)) its))"
proof (induction its arbitrary: l)
  case Nil
  then show ?case by simp
next
  case (Cons it its)
  obtain m c v where it: "it = (m, c, v)"
    by (cases it) auto
  have step: "allErrors (runIteration sv init m c v l) =
      allErrors l @
      (case generateIterationAction sv (length (loop_calls l)) (iterationParams init m c v) of
         Success d \<Rightarrow> []
       | Failure e \<Rightarrow> [complexityLevelString c @ '' / '' @ promptVariantString v @ '' / '' @
                        model_label m @ '': '' @ e])"
    by (simp add: runIteration_def Let_def split: ActionResult.splits)
  show ?case
    using Cons.IH [of "runIteration sv init m c v l"]
    by (simp add: it step runIteration_calls)
qed

lemma runAll_errors:
  assumes "st_file st = Some f" and "initBatchAction sv (Some f) = Success init"
  shows "st_errors (fst (runAll sv models levels variants st)) =
     concat (map (\<lambda>(n, m, c, v).
        case generateIterationAction sv n (iterationParams init m c v) of
          Success d \<Rightarrow> []
        | Failure e \<Rightarrow> [complexityLevelString c @ '' / '' @ promptVariantString v @ '' / '' @
                         model_label m @ '': '' @ e])
       (enumerate 0 (spec_iterations models levels variants)))"
proof -
  define st2 where "st2 =
    st \<lparr> st_phase := PhaseAnalyzing, st_error := None, st_results := [], st_errors := [],
         st_completedCount := 0, st_saved := False, st_timerRunning := True,
         st_batchId := Some (init_batchId init),
         st_inputFileName := Some (init_inputFileName init),
         st_analysis := Some (init_analysis init),
         st_phase := PhaseGenerating \<rparr>"
  define l0 where "l0 =
    \<lparr> allResults = [], allErrors = [], loop_state = st2, loop_calls = [] \<rparr>"
  define l1 where "l1 =
    fold (\<lambda>(m, c, v). runIteration sv init m c v) (spec_iterations models levels variants) l0"
  have run: "fst (runAll sv models levels variants st) =
      (loop_state l1) \<lparr> st_timerRunning := False, st_phase := PhaseDone \<rparr>"
    using assms by (simp add: runAll_def Let_def generateAll_fold l1_def l0_def st2_def)
  have inv0: "st_results (loop_state l0) = allResults l0 \<and>
      st_completedCount (loop_state l0) = length (allResults l0) \<and>
      st_errors (loop_state l0) = allErrors l0"
    by (simp add: l0_def st2_def)
  have "st_errors (loop_state l1) = allErrors l1"
    using fold_runIteration_state [OF inv0, of sv init "spec_iterations models levels variants"]
    by (simp add: l1_def)
  then show ?thesis
    by (simp add: run l1_def fold_runIteration_allErrors l0_def)
qed

text \<open>The two counts of \<open>handleSave\<close>, read off the error fields of the results.\<close>

lemma count_hasError:
  "length (filter hasError rs) =
     length (filter (\<lambda>e. case e of None \<Rightarrow> False | Some msg \<Rightarrow> msg \<noteq> []) (map br_error rs))"
  by (induction rs) (simp_all add: hasError_def)

lemma count_not_hasError:
  "length (filter (\<lambda>r. \<not> hasError r) rs) =
     length (filter (\<lambda>e. case e of None \<Rightarrow> True | Some msg \<Rightarrow> msg = []) (map br_error rs))"
  by (induction rs) (simp_all add: hasError_def split: option.splits)

lemma count_error_absent:
  "length (filter (\<lambda>r. br_error r = None) rs) =
     length (filter (\<lambda>e. e = None) (map br_error rs))"
  by (induction rs) simp_all

lemma count_error_present:
  "length (filter (\<lambda>r. br_error r \<noteq> None) rs) =
     length (filter (\<lambda>e. e \<noteq> None) (map br_error rs))"
  by (induction rs) simp_all

text \<open>
  The results that \<open>handleSave\<close> counts as completed are those without an error together
  with those whose error is the empty string.
\<close>

lemma count_not_hasError_split:
  "length (filter (\<lambda>r. \<not> hasError r) rs) =
     length (filter (\<lambda>r. br_error r = None) rs) +
     length (filter (\<lambda>r. br_error r = Some []) rs)"
  by (induction rs) (auto simp add: hasError_def split: option.splits)

lemma count_hasError_split:
  "length (filter hasError rs) + length (filter (\<lambda>r. br_error r = Some []) rs) =
     length (filter (\<lambda>r. br_error r \<noteq> None) rs)"
  by (induction rs) (auto simp add: hasError_def split: option.splits)

text \<open>
  The \<open>BatchRun\<close> that \<open>handleSave\<close> builds after a run over any three arrays, whatever
  ratings were entered in between.
\<close>

lemma runAll_saveRun_accounting:
  assumes "st_file st = Some f" and "initBatchAction sv (Some f) = Success init"
  shows "\<exists>run.
     snd (saveRun sv2 (length levels * length variants * length models)
            ((fst (runAll sv models levels variants st)) \<lparr> st_ratings := rt \<rparr>)) = Some run \<and>
     totalIterations run = length models * length levels * length variants \<and>
     completedIterations run = length (filter (\<lambda>r. \<not> hasError r) (run_results run)) \<and>
     failedIterations run = length (filter hasError (run_results run)) \<and>
     completedIterations run + failedIterations run = totalIterations run \<and>
     length (run_results run) = totalIterations run \<and>
     map (\<lambda>r. (br_model r, br_complexity r, br_variant r, br_error r)) (run_results run) =
       map (\<lambda>(n, m, c, v). (model_id m, complexityLevelString c, promptVariantString v,
                              br_error (spec_recorded sv init (n, m, c, v))))
         (enumerate 0 (spec_iterations models levels variants)) \<and>
     map br_error (run_results run) =
       map (\<lambda>(n, m, c, v). br_error (spec_recorded sv init (n, m, c, v)))
         (enumerate 0 (spec_iterations models levels variants))"
proof -
  define st' where "st' = (fst (runAll sv models levels variants st)) \<lparr> st_ratings := rt \<rparr>"
  note run = runAll_init_success [OF assms, of models levels variants]
  have bid: "st_batchId st' = Some (init_batchId init)" and chosen: "st_file st' = Some f"
    and results: "st_results st' =
      map (spec_recorded sv init) (enumerate 0 (spec_iterations models levels variants))"
    using run by (simp_all add: st'_def)
  obtain r where r: "snd (saveRun sv2 (length levels * length variants * length models) st') = Some r"
    "totalIterations r = length levels * length variants * length models"
    "completedIterations r = length (filter (\<lambda>r. \<not> hasError r) (run_results r))"
    "failedIterations r = length (filter hasError (run_results r))"
    "completedIterations r + failedIterations r = length (st_results st')"
    "length (run_results r) = length (st_results st')"
    "map (\<lambda>r. (br_model r, br_complexity r, br_variant r, br_error r)) (run_results r) =
       map (\<lambda>r. (br_model r, br_complexity r, br_variant r, br_error r)) (st_results st')"
    using saveRun_accounting [OF bid initBatchAction_batchId [OF assms(2)] chosen,
        of sv2 "length levels * length variants * length models"]
    by blast
  have n: "length (st_results st') = length models * length levels * length variants"
    by (simp add: results length_spec_iterations)
  have keys: "map (\<lambda>r. (br_model r, br_complexity r, br_variant r, br_error r)) (st_results st') =
      map (\<lambda>(n, m, c, v). (model_id m, complexityLevelString c, promptVariantString v,
                             br_error (spec_recorded sv init (n, m, c, v))))
        (enumerate 0 (spec_iterations models levels variants))"
    unfolding results by (auto simp add: spec_recorded_key)
  have "map (\<lambda>q. snd (snd (snd q)))
        (map (\<lambda>r. (br_model r, br_complexity r, br_variant r, br_error r)) (run_results r)) =
      map (\<lambda>q. snd (snd (snd q)))
        (map (\<lambda>(n, m, c, v). (model_id m, complexityLevelString c, promptVariantString v,
                               br_error (spec_recorded sv init (n, m, c, v))))
           (enumerate 0 (spec_iterations models levels variants)))"
    using r(7) keys by simp
  then have errs: "map br_error (run_results r) =
      map (\<lambda>(n, m, c, v). br_error (spec_recorded sv init (n, m, c, v)))
        (enumerate 0 (spec_iterations models levels variants))"
    by (simp add: comp_def case_prod_unfold)
  show ?thesis
    using r n keys errs by (intro exI [of _ r]) (simp add: st'_def mult_ac)
qed

text \<open>
  The saved run meets the accounting of the specification exactly when no failed
  iteration has left the empty string as its error.
\<close>

lemma saved_run_accounting_iff:
  assumes "st_file st = Some f" and "initBatchAction sv (Some f) = Success init"
  shows "\<exists>run.
     snd (saveRun sv2 (length levels * length variants * length models)
            ((fst (runAll sv models levels variants st)) \<lparr> st_ratings := rt \<rparr>)) = Some run \<and>
     (spec_accounting sv init (spec_iterations models levels variants) run \<longleftrightarrow>
        filter (\<lambda>r. br_error r = Some []) (run_results run) = [])"
proof -
  obtain run where run:
    "snd (saveRun sv2 (length levels * length variants * length models)
            ((fst (runAll sv models levels variants st)) \<lparr> st_ratings := rt \<rparr>)) = Some run"
    "totalIterations run = length models * length levels * length variants"
    "completedIterations run = length (filter (\<lambda>r. \<not> hasError r) (run_results run))"
    "failedIterations run = length (filter hasError (run_results run))"
    "completedIterations run + failedIterations run = totalIterations run"
    "length (run_results run) = totalIterations run"
    "map (\<lambda>r. (br_model r, br_complexity r, br_variant r, br_error r)) (run_results run) =
       map (\<lambda>(n, m, c, v). (model_id m, complexityLevelString c, promptVariantString v,
                              br_error (spec_recorded sv init (n, m, c, v))))
         (enumerate 0 (spec_iterations models levels variants))"
    using runAll_saveRun_accounting [OF assms, of sv2 levels variants models rt] by blast
  have "spec_accounting sv init (spec_iterations models levels variants) run \<longleftrightarrow>
      length (filter (\<lambda>r. br_error r = Some []) (run_results run)) = 0"
    unfolding spec_accounting_def
    using run(2-7) count_not_hasError_split [of "run_results run"]
      count_hasError_split [of "run_results run"]
    by (auto simp add: length_spec_iterations)
  then show ?thesis
    using run(1) by (intro exI [of _ run]) simp
qed

text \<open>
  The specification's example, one model, two complexity levels and one variant, where
  the generation call fails for the adult level with a message: one completed, one
  failed, two in total.
\<close>

lemma saved_run_accounting_example:
  "\<exists>run. snd (saveRun example_adult_down 2
               (fst (runAll example_adult_down [example_model] [Child, Adult]
                       [DirectTransform] example_state))) = Some run \<and>
     totalIterations run = 2 \<and> completedIterations run = 1 \<and> failedIterations run = 1 \<and>
     map br_error (run_results run) = [None, Some ''Generation timed out''] \<and>
     spec_accounting example_adult_down example_init
       (spec_iterations [example_model] [Child, Adult] [DirectTransform]) run"
proof -
  have chosen: "st_file example_state = Some example_file"
    by (simp add: example_state_def)
  have up: "initBatchAction example_adult_down (Some example_file) = Success example_init"
    by (simp add: initBatchAction_def example_adult_down_def example_services_def fail_def
        example_init_def example_file_def)
  have errors: "map (\<lambda>(n, m, c, v). br_error (spec_recorded example_adult_down example_init (n, m, c, v)))
        (enumerate 0 (spec_iterations [example_model] [Child, Adult] [DirectTransform])) =
      [None, Some ''Generation timed out'']"
    by (simp add: spec_iterations_def example_model_def GENERATION_MODELS_def
        spec_recorded_def generateIterationAction_def generateImage_def
        example_adult_down_def example_services_def example_edit_response_def
        example_generation_response_def fail_def iterationParams_def Let_def
        successResult_def failureResult_def suffix_to_prefix buildGenerationPrompt_def)
  obtain run where run:
    "snd (saveRun example_adult_down
            (length [Child, Adult] * length [DirectTransform] * length [example_model])
            ((fst (runAll example_adult_down [example_model] [Child, Adult]
                     [DirectTransform] example_state))
               \<lparr> st_ratings := st_ratings (fst (runAll example_adult_down [example_model]
                     [Child, Adult] [DirectTransform] example_state)) \<rparr>)) = Some run"
    "totalIterations run = length [example_model] * length [Child, Adult] * length [DirectTransform]"
    "completedIterations run = length (filter (\<lambda>r. \<not> hasError r) (run_results run))"
    "failedIterations run = length (filter hasError (run_results run))"
    "map br_error (run_results run) =
       map (\<lambda>(n, m, c, v). br_error (spec_recorded example_adult_down example_init (n, m, c, v)))
         (enumerate 0 (spec_iterations [example_model] [Child, Adult] [DirectTransform]))"
    "length (run_results run) = totalIterations run"
    "map (\<lambda>r. (br_model r, br_complexity r, br_variant r, br_error r)) (run_results run) =
       map (\<lambda>(n, m, c, v). (model_id m, complexityLevelString c, promptVariantString v,
                              br_error (spec_recorded example_adult_down example_init (n, m, c, v))))
         (enumerate 0 (spec_iterations [example_model] [Child, Adult] [DirectTransform]))"
    using runAll_saveRun_accounting [OF chosen up, of example_adult_down "[Child, Adult]"
        "[DirectTransform]" "[example_model]"]
    by blast
  have recorded: "map br_error (run_results run) = [None, Some ''Generation timed out'']"
    using run(5) errors by simp
  have counts: "totalIterations run = 2 \<and> completedIterations run = 1 \<and>
      failedIterations run = 1"
    using run(2,3,4) unfolding count_hasError count_not_hasError recorded by simp
  have saved: "snd (saveRun example_adult_down 2
            (fst (runAll example_adult_down [example_model] [Child, Adult]
                     [DirectTransform] example_state))) = Some run"
    using run(1) by (simp add: numeral_2_eq_2)
  have meets: "spec_accounting example_adult_down example_init
       (spec_iterations [example_model] [Child, Adult] [DirectTransform]) run"
    unfolding spec_accounting_def count_error_absent count_error_present recorded
    using counts run(6,7) by (simp add: length_spec_iterations)
  show ?thesis
    using saved counts recorded meets by (intro exI [of _ run]) simp
qed

text \<open>
  C3. The accounting does not hold when an iteration fails with an empty error message.
  \<open>handleRunAll\<close> records such an iteration as failed: it pushes an entry whose \<open>error\<close>
  field is present, and a line to the list of failed iterations that the page shows.
  \<open>handleSave\<close> counts by the truth value of \<open>r.error\<close>, and the empty string is false, so
  it counts the entry as completed. When the text-to-image endpoint rejects every call
  with an empty message, the page's run of thirty iterations has six failed calls and
  lists six failed iterations, 24 of the saved results are without an error and 6 with
  one, and yet the saved run has \<open>completedIterations = 30\<close> and \<open>failedIterations = 0\<close>. At
  the specification's example (one model, two complexity levels, one variant, the call
  failing for the adult level) the saved run has 2 completed and 0 failed, where the
  specification gives 1 and 1.
\<close>

theorem batch_accounting_empty_message:
  "initBatchAction example_generation_silent (Some example_file) = Success example_init \<and>
   generateIterationAction example_generation_silent 24
       (iterationParams example_init example_model Child DirectTransform) = Failure [] \<and>
   st_errors (fst (handleRunAll example_generation_silent example_state)) =
     [''child / direct-transform / Fast SDXL (text-to-image): '',
      ''child / preservation-heavy / Fast SDXL (text-to-image): '',
      ''child / simplification-heavy / Fast SDXL (text-to-image): '',
      ''adult / direct-transform / Fast SDXL (text-to-image): '',
      ''adult / preservation-heavy / Fast SDXL (text-to-image): '',
      ''adult / simplification-heavy / Fast SDXL (text-to-image): ''] \<and>
   (\<exists>run. snd (handleSave example_generation_silent
                 (fst (handleRunAll example_generation_silent example_state))) = Some run \<and>
      totalIterations run = 30 \<and> completedIterations run = 30 \<and> failedIterations run = 0 \<and>
      map br_error (run_results run) =
        [None, None, None, None, None, None, None, None, None, None, None, None,
         None, None, None, None, None, None, None, None, None, None, None, None,
         Some [], Some [], Some [], Some [], Some [], Some []] \<and>
      length (filter (\<lambda>r. br_error r = None) (run_results run)) = 24 \<and>
      length (filter (\<lambda>r. br_error r \<noteq> None) (run_results run)) = 6 \<and>
      \<not> spec_accounting example_generation_silent example_init
          (spec_iterations GENERATION_MODELS BATCH_COMPLEXITY_LEVELS BATCH_VARIANTS) run) \<and>
   initBatchAction example_adult_silent (Some example_file) = Success example_init \<and>
   st_errors (fst (runAll example_adult_silent [example_model] [Child, Adult] [DirectTransform]
                     example_state)) =
     [''adult / direct-transform / Fast SDXL (text-to-image): ''] \<and>
   (\<exists>run. snd (saveRun example_adult_silent 2
                 (fst (runAll example_adult_silent [example_model] [Child, Adult]
                         [DirectTransform] example_state))) = Some run \<and>
      totalIterations run = 2 \<and> completedIterations run = 2 \<and> failedIterations run = 0 \<and>
      map br_error (run_results run) = [None, Some []] \<and>
      \<not> spec_accounting example_adult_silent example_init
          (spec_iterations [example_model] [Child, Adult] [DirectTransform]) run)"
proof -
  have chosen: "st_file example_state = Some example_file"
    by (simp add: example_state_def)
  have up1: "initBatchAction example_adult_silent (Some example_file) = Success example_init"
    by (simp add: initBatchAction_def example_adult_silent_def example_services_def fail_def
        example_init_def example_file_def)
  have up2: "initBatchAction example_generation_silent (Some example_file) = Success example_init"
    by (simp add: initBatchAction_def example_generation_silent_def example_services_def fail_def
        example_init_def example_file_def)
  have silent: "generateIterationAction example_generation_silent 24
       (iterationParams example_init example_model Child DirectTransform) = Failure []"
    by (simp add: example_model_def generateIterationAction_def generateImage_def
        GENERATION_MODELS_def example_generation_silent_def example_services_def fail_def
        iterationParams_def Let_def suffix_to_prefix buildGenerationPrompt_def)
  have errors1: "map (\<lambda>(n, m, c, v). br_error (spec_recorded example_adult_silent example_init (n, m, c, v)))
        (enumerate 0 (spec_iterations [example_model] [Child, Adult] [DirectTransform])) =
      [None, Some []]"
    by (simp add: spec_iterations_def example_model_def GENERATION_MODELS_def
        spec_recorded_def generateIterationAction_def generateImage_def
        example_adult_silent_def example_services_def example_edit_response_def
        example_generation_response_def fail_def iterationParams_def Let_def
        successResult_def failureResult_def suffix_to_prefix buildGenerationPrompt_def)
  have errors2: "map (\<lambda>(n, m, c, v). br_error (spec_recorded example_generation_silent example_init (n, m, c, v)))
        (enumerate 0 (spec_iterations GENERATION_MODELS BATCH_COMPLEXITY_LEVELS BATCH_VARIANTS)) =
     [None, None, None, None, None, None, None, None, None, None, None, None,
      None, None, None, None, None, None, None, None, None, None, None, None,
      Some [], Some [], Some [], Some [], Some [], Some []]"
    by (simp add: spec_iterations_def GENERATION_MODELS_def BATCH_COMPLEXITY_LEVELS_def
        BATCH_VARIANTS_def spec_recorded_def generateIterationAction_def generateImage_def
        example_generation_silent_def example_services_def example_edit_response_def
        example_generation_response_def fail_def iterationParams_def Let_def
        successResult_def failureResult_def suffix_to_prefix buildGenerationPrompt_def)
  have listed1: "st_errors (fst (runAll example_adult_silent [example_model] [Child, Adult]
        [DirectTransform] example_state)) =
      [''adult / direct-transform / Fast SDXL (text-to-image): '']"
    unfolding runAll_errors [OF chosen up1]
    by (simp add: spec_iterations_def example_model_def GENERATION_MODELS_def
        generateIterationAction_def generateImage_def
        example_adult_silent_def example_services_def example_edit_response_def
        example_generation_response_def fail_def iterationParams_def Let_def
        suffix_to_prefix buildGenerationPrompt_def)
  have listed2: "st_errors (fst (handleRunAll example_generation_silent example_state)) =
     [''child / direct-transform / Fast SDXL (text-to-image): '',
      ''child / preservation-heavy / Fast SDXL (text-to-image): '',
      ''child / simplification-heavy / Fast SDXL (text-to-image): '',
      ''adult / direct-transform / Fast SDXL (text-to-image): '',
      ''adult / preservation-heavy / Fast SDXL (text-to-image): '',
      ''adult / simplification-heavy / Fast SDXL (text-to-image): '']"
    unfolding handleRunAll_def runAll_errors [OF chosen up2]
    by (simp add: spec_iterations_def GENERATION_MODELS_def BATCH_COMPLEXITY_LEVELS_def
        BATCH_VARIANTS_def generateIterationAction_def generateImage_def
        example_generation_silent_def example_services_def example_edit_response_def
        example_generation_response_def fail_def iterationParams_def Let_def
        suffix_to_prefix buildGenerationPrompt_def)
  obtain run1 where run1:
    "snd (saveRun example_adult_silent
            (length [Child, Adult] * length [DirectTransform] * length [example_model])
            ((fst (runAll example_adult_silent [example_model] [Child, Adult]
                     [DirectTransform] example_state))
               \<lparr> st_ratings := st_ratings (fst (runAll example_adult_silent [example_model]
                     [Child, Adult] [DirectTransform] example_state)) \<rparr>)) = Some run1"
    "totalIterations run1 = length [example_model] * length [Child, Adult] * length [DirectTransform]"
    "completedIterations run1 = length (filter (\<lambda>r. \<not> hasError r) (run_results run1))"
    "failedIterations run1 = length (filter hasError (run_results run1))"
    "map br_error (run_results run1) =
       map (\<lambda>(n, m, c, v). br_error (spec_recorded example_adult_silent example_init (n, m, c, v)))
         (enumerate 0 (spec_iterations [example_model] [Child, Adult] [DirectTransform]))"
    using runAll_saveRun_accounting [OF chosen up1, of example_adult_silent "[Child, Adult]"
        "[DirectTransform]" "[example_model]"]
    by blast
  have recorded1: "map br_error (run_results run1) = [None, Some []]"
    using run1(5) errors1 by simp
  have small: "totalIterations run1 = 2 \<and> completedIterations run1 = 2 \<and>
      failedIterations run1 = 0"
    using run1(2,3,4) unfolding count_hasError count_not_hasError recorded1 by simp
  have saved1: "snd (saveRun example_adult_silent 2
            (fst (runAll example_adult_silent [example_model] [Child, Adult]
                     [DirectTransform] example_state))) = Some run1"
    using run1(1) by (simp add: numeral_2_eq_2)
  have wrong1: "\<not> spec_accounting example_adult_silent example_init
          (spec_iterations [example_model] [Child, Adult] [DirectTransform]) run1"
    using small unfolding spec_accounting_def count_error_absent count_error_present recorded1
    by simp
  obtain run2 where run2:
    "snd (saveRun example_generation_silent
            (length BATCH_COMPLEXITY_LEVELS * length BATCH_VARIANTS * length GENERATION_MODELS)
            ((fst (runAll example_generation_silent GENERATION_MODELS BATCH_COMPLEXITY_LEVELS
                     BATCH_VARIANTS example_state))
               \<lparr> st_ratings := st_ratings (fst (runAll example_generation_silent GENERATION_MODELS
                     BATCH_COMPLEXITY_LEVELS BATCH_VARIANTS example_state)) \<rparr>)) = Some run2"
    "totalIterations run2 =
       length GENERATION_MODELS * length BATCH_COMPLEXITY_LEVELS * length BATCH_VARIANTS"
    "completedIterations run2 = length (filter (\<lambda>r. \<not> hasError r) (run_results run2))"
    "failedIterations run2 = length (filter hasError (run_results run2))"
    "map br_error (run_results run2) =
       map (\<lambda>(n, m, c, v). br_error (spec_recorded example_generation_silent example_init (n, m, c, v)))
         (enumerate 0 (spec_iterations GENERATION_MODELS BATCH_COMPLEXITY_LEVELS BATCH_VARIANTS))"
    using runAll_saveRun_accounting [OF chosen up2, of example_generation_silent
        BATCH_COMPLEXITY_LEVELS BATCH_VARIANTS GENERATION_MODELS]
    by blast
  have recorded2: "map br_error (run_results run2) =
     [None, None, None, None, None, None, None, None, None, None, None, None,
      None, None, None, None, None, None, None, None, None, None, None, None,
      Some [], Some [], Some [], Some [], Some [], Some []]"
    using run2(5) errors2 by simp
  have thirty: "totalIterations run2 = 30"
    using run2(2)
    by (simp add: GENERATION_MODELS_def BATCH_COMPLEXITY_LEVELS_def BATCH_VARIANTS_def)
  have large: "completedIterations run2 = 30 \<and> failedIterations run2 = 0"
    using run2(3,4) unfolding count_hasError count_not_hasError recorded2 by simp
  have absent: "length (filter (\<lambda>r. br_error r = None) (run_results run2)) = 24"
    unfolding count_error_absent recorded2 by simp
  have present: "length (filter (\<lambda>r. br_error r \<noteq> None) (run_results run2)) = 6"
    unfolding count_error_present recorded2 by simp
  have saved2: "snd (handleSave example_generation_silent
                 (fst (handleRunAll example_generation_silent example_state))) = Some run2"
    using run2(1) by (simp add: handleSave_def handleRunAll_def TOTAL_ITERATIONS_def)
  have wrong2: "\<not> spec_accounting example_generation_silent example_init
          (spec_iterations GENERATION_MODELS BATCH_COMPLEXITY_LEVELS BATCH_VARIANTS) run2"
    using large absent unfolding spec_accounting_def by simp
  have first: "\<exists>run. snd (handleSave example_generation_silent
                 (fst (handleRunAll example_generation_silent example_state))) = Some run \<and>
      totalIterations run = 30 \<and> completedIterations run = 30 \<and> failedIterations run = 0 \<and>
      map br_error (run_results run) =
        [None, None, None, None, None, None, None, None, None, None, None, None,
         None, None, None, None, None, None, None, None, None, None, None, None,
         Some [], Some [], Some [], Some [], Some [], Some []] \<and>
      length (filter (\<lambda>r. br_error r = None) (run_results run)) = 24 \<and>
      length (filter (\<lambda>r. br_error r \<noteq> None) (run_results run)) = 6 \<and>
      \<not> spec_accounting example_generation_silent example_init
          (spec_iterations GENERATION_MODELS BATCH_COMPLEXITY_LEVELS BATCH_VARIANTS) run"
    using saved2 thirty large recorded2 absent present wrong2 by (intro exI [of _ run2]) simp
  have second: "\<exists>run. snd (saveRun example_adult_silent 2
                 (fst (runAll example_adult_silent [example_model] [Child, Adult]
                         [DirectTransform] example_state))) = Some run \<and>
      totalIterations run = 2 \<and> completedIterations run = 2 \<and> failedIterations run = 0 \<and>
      map br_error (run_results run) = [None, Some []] \<and>
      \<not> spec_accounting example_adult_silent example_init
          (spec_iterations [example_model] [Child, Adult] [DirectTransform]) run"
    using saved1 small recorded1 wrong1 by (intro exI [of _ run1]) simp
  show ?thesis
    by (intro conjI up2 silent listed2 first up1 listed1 second)
qed

end
